theory Spec2Isabelle
  imports Complex_Main "HOL-Library.AList" "HOL-Library.Sublist"
begin

section \<open>Python values\<close>

text \<open>
  The handlers of \<^verbatim>\<open>server.py\<close> and the methods of \<^verbatim>\<open>zendesk_client.py\<close> work on
  JSON-shaped Python values: tool arguments, remote responses and the records that are
  returned. A dict is an association list in insertion order (a real dict has distinct
  keys; lookups below take the first binding). A string is a list of code points below
  256. A float is a real number (no infinities, no NaN, no rounding).
\<close>

datatype json =
    JNull
  | JBool bool
  | JInt int
  | JFloat real
  | JStr string
  | JList "json list"
  | JDict "(string \<times> json) list"

type_synonym py_dict = "(string \<times> json) list"

text \<open>
  Exceptions are values. \<open>KeyError\<close> carries the missing key, \<open>HTTPError\<close> the status
  code, the reason and the body that \<^verbatim>\<open>e.read().decode()\<close> gives when \<^verbatim>\<open>e.fp\<close> is set;
  the others carry their message.
\<close>

datatype exn =
    ValueError string
  | TypeError string
  | AttributeError string
  | KeyError json
  | HTTPError int string "string option"
  | Exception string

text \<open>
  Two library functions are parameters of the model: \<^verbatim>\<open>json.dumps(v, indent=i)\<close> and
  \<^verbatim>\<open>repr(v)\<close>. Every statement below holds for any choice of them.
\<close>

record python =
  py_dumps :: "json \<Rightarrow> nat option \<Rightarrow> string"
  py_repr :: "json \<Rightarrow> string"

abbreviation nl :: char where
  "nl \<equiv> CHR 0x0A"

definition digit_char :: "nat \<Rightarrow> char" where
  "digit_char d = ''0123456789'' ! d"

fun str_nat :: "nat \<Rightarrow> string" where
  "str_nat n = (if n < 10 then [digit_char n] else str_nat (n div 10) @ [digit_char (n mod 10)])"

declare str_nat.simps [simp del]

definition str_int :: "int \<Rightarrow> string" where
  \<comment> \<open>\<^verbatim>\<open>str(n)\<close> and \<^verbatim>\<open>f"{n}"\<close> for an int\<close>
  "str_int i = (if i < 0 then CHR ''-'' # str_nat (nat (- i)) else str_nat (nat i))"

definition py_str :: "python \<Rightarrow> json \<Rightarrow> string" where
  \<comment> \<open>\<^verbatim>\<open>str(v)\<close>: a string is itself, any other value prints as its repr\<close>
  "py_str py v = (case v of JStr s \<Rightarrow> s | _ \<Rightarrow> py_repr py v)"

definition str_exn :: "python \<Rightarrow> exn \<Rightarrow> string" where
  \<comment> \<open>\<^verbatim>\<open>str(e)\<close>\<close>
  "str_exn py e =
     (case e of
        ValueError m \<Rightarrow> m
      | TypeError m \<Rightarrow> m
      | AttributeError m \<Rightarrow> m
      | KeyError k \<Rightarrow> py_repr py k
      | HTTPError code reason body \<Rightarrow> ''HTTP Error '' @ str_int code @ '': '' @ reason
      | Exception m \<Rightarrow> m)"

definition type_name :: "json \<Rightarrow> string" where
  "type_name v =
     (case v of
        JNull \<Rightarrow> ''NoneType''
      | JBool b \<Rightarrow> ''bool''
      | JInt n \<Rightarrow> ''int''
      | JFloat x \<Rightarrow> ''float''
      | JStr s \<Rightarrow> ''str''
      | JList xs \<Rightarrow> ''list''
      | JDict d \<Rightarrow> ''dict'')"

definition truthy :: "json \<Rightarrow> bool" where
  \<comment> \<open>the truth value Python's \<^verbatim>\<open>if v\<close>, \<^verbatim>\<open>not v\<close>, \<^verbatim>\<open>v and ...\<close>, \<^verbatim>\<open>v or ...\<close> test\<close>
  "truthy v =
     (case v of
        JNull \<Rightarrow> False
      | JBool b \<Rightarrow> b
      | JInt n \<Rightarrow> n \<noteq> 0
      | JFloat x \<Rightarrow> x \<noteq> 0
      | JStr s \<Rightarrow> s \<noteq> []
      | JList xs \<Rightarrow> xs \<noteq> []
      | JDict d \<Rightarrow> d \<noteq> [])"

definition dict_get :: "py_dict \<Rightarrow> string \<Rightarrow> json \<Rightarrow> json" where
  \<comment> \<open>\<^verbatim>\<open>d.get(k, default)\<close>; \<^verbatim>\<open>d.get(k)\<close> is \<open>dict_get d k JNull\<close>\<close>
  "dict_get d k dflt = (case map_of d k of None \<Rightarrow> dflt | Some v \<Rightarrow> v)"

definition dict_getitem :: "py_dict \<Rightarrow> string \<Rightarrow> exn + json" where
  \<comment> \<open>\<^verbatim>\<open>d[k]\<close>\<close>
  "dict_getitem d k = (case map_of d k of None \<Rightarrow> Inl (KeyError (JStr k)) | Some v \<Rightarrow> Inr v)"

subsection \<open>Strings\<close>

definition is_space :: "char \<Rightarrow> bool" where
  \<comment> \<open>\<^verbatim>\<open>str.isspace\<close> on one code point below 256\<close>
  "is_space c =
     (let n = (of_char c :: nat)
      in (9 \<le> n \<and> n \<le> 13) \<or> (28 \<le> n \<and> n \<le> 32) \<or> n = 133 \<or> n = 160)"

definition py_strip :: "string \<Rightarrow> string" where
  \<comment> \<open>\<^verbatim>\<open>s.strip()\<close>\<close>
  "py_strip s = rev (dropWhile is_space (rev (dropWhile is_space s)))"

function py_replace :: "string \<Rightarrow> string \<Rightarrow> string \<Rightarrow> string" where
  \<comment> \<open>\<^verbatim>\<open>s.replace(old, new)\<close> for a non-empty \<open>old\<close>: every occurrence, left to right,
      without overlap\<close>
  "py_replace old new [] = []"
| "py_replace old new (c # cs) =
     (if old \<noteq> [] \<and> prefix old (c # cs)
      then new @ py_replace old new (drop (length old) (c # cs))
      else c # py_replace old new cs)"
  by pat_completeness auto
termination
  by (relation "measure (\<lambda>(old, new, s). length s)") (auto simp: neq_Nil_conv)

subsection \<open>The conversion int()\<close>

definition is_digit :: "char \<Rightarrow> bool" where
  "is_digit c = (let n = (of_char c :: nat) in 48 \<le> n \<and> n \<le> 57)"

definition digit_val :: "char \<Rightarrow> nat" where
  "digit_val c = of_char c - 48"

definition int_space :: "char \<Rightarrow> bool" where
  \<comment> \<open>the white space \<^verbatim>\<open>int()\<close> skips around a literal\<close>
  "int_space c =
     (let n = (of_char c :: nat)
      in (9 \<le> n \<and> n \<le> 13) \<or> n = 32 \<or> n = 133 \<or> n = 160)"

fun scan_digits :: "char \<Rightarrow> nat \<Rightarrow> nat \<Rightarrow> string \<Rightarrow> (nat \<times> nat \<times> char \<times> string) option" where
  \<comment> \<open>the longest run of digits and single underscores: its value, its number of
      digits, its last character and what follows it; \<open>None\<close> on a doubled underscore\<close>
  "scan_digits prev acc n [] = Some (acc, n, prev, [])"
| "scan_digits prev acc n (c # cs) =
     (if is_digit c then scan_digits c (10 * acc + digit_val c) (Suc n) cs
      else if c = CHR ''_'' then (if prev = CHR ''_'' then None else scan_digits c acc n cs)
      else Some (acc, n, prev, c # cs))"

definition invalid_literal :: "python \<Rightarrow> string \<Rightarrow> exn" where
  "invalid_literal py s =
     ValueError (''invalid literal for int() with base 10: '' @ take 200 (py_repr py (JStr s)))"

definition int_of_str :: "python \<Rightarrow> string \<Rightarrow> exn + int" where
  \<comment> \<open>\<^verbatim>\<open>int(s)\<close> for a string, base 10, with the default limit of 4300 digits\<close>
  "int_of_str py s =
     (let t = dropWhile int_space s;
          neg = (t \<noteq> [] \<and> hd t = CHR ''-'');
          body = (if t \<noteq> [] \<and> (hd t = CHR ''-'' \<or> hd t = CHR ''+'') then tl t else t)
      in if body \<noteq> [] \<and> hd body = CHR ''_'' then Inl (invalid_literal py s)
         else case scan_digits (CHR 0x00) 0 0 body of
                None \<Rightarrow> Inl (invalid_literal py s)
              | Some (v, n, prev, rest) \<Rightarrow>
                  if prev = CHR ''_'' \<or> n = 0 then Inl (invalid_literal py s)
                  else if 4300 < n then
                    Inl (ValueError (''Exceeds the limit (4300 digits) for integer string conversion: value has ''
                           @ str_nat n @ '' digits; use sys.set_int_max_str_digits() to increase the limit''))
                  else if dropWhile int_space rest \<noteq> [] then Inl (invalid_literal py s)
                  else Inr (if neg then - int v else int v))"

definition py_int :: "python \<Rightarrow> json \<Rightarrow> exn + int" where
  \<comment> \<open>\<^verbatim>\<open>int(v)\<close>\<close>
  "py_int py v =
     (case v of
        JInt n \<Rightarrow> Inr n
      | JBool b \<Rightarrow> Inr (if b then 1 else 0)
      | JFloat x \<Rightarrow> Inr (if 0 \<le> x then \<lfloor>x\<rfloor> else \<lceil>x\<rceil>)
      | JStr s \<Rightarrow> int_of_str py s
      | _ \<Rightarrow> Inl (TypeError (''int() argument must be a string, a bytes-like object or a real number, not ''
                          @ [CHR 0x27] @ type_name v @ [CHR 0x27])))"

section \<open>server.py: prompts\<close>

definition TICKET_ANALYSIS_TEMPLATE :: string where
  "TICKET_ANALYSIS_TEMPLATE =
     nl # ''You are a helpful Zendesk support analyst. You've been asked to analyze ticket #{ticket_id}.''
     @ nl # nl # ''Please fetch the ticket info and comments to analyze it and provide:''
     @ nl # ''1. A summary of the issue''
     @ nl # ''2. The current status and timeline''
     @ nl # ''3. Key points of interaction''
     @ nl # nl # ''Remember to be professional and focus on actionable insights.''
     @ [nl]"

definition COMMENT_DRAFT_TEMPLATE :: string where
  "COMMENT_DRAFT_TEMPLATE =
     nl # ''You are a helpful Zendesk support agent. You need to draft a response to ticket #{ticket_id}.''
     @ nl # nl # ''Please fetch the ticket info, comments and knowledge base to draft a professional and helpful response that:''
     @ nl # ''1. Acknowledges the customer's concern''
     @ nl # ''2. Addresses the specific issues raised''
     @ nl # ''3. Provides clear next steps or ask for specific details need to proceed''
     @ nl # ''4. Maintains a friendly and professional tone''
     @ nl # ''5. Ask for confirmation before commenting on the ticket''
     @ nl # nl # ''The response should be formatted well and ready to be posted as a comment.''
     @ [nl]"

definition format_ticket_id :: "string \<Rightarrow> int \<Rightarrow> string" where
  \<comment> \<open>\<^verbatim>\<open>template.format(ticket_id=n)\<close> for a template whose only braces are
      \<^verbatim>\<open>{ticket_id}\<close> fields\<close>
  "format_ticket_id template n = py_replace ''{ticket_id}'' (str_int n) template"

definition analysis_prompt :: "int \<Rightarrow> string" where
  \<comment> \<open>the analysis template, written out, with the ticket number in place and without
      the line break at either end\<close>
  "analysis_prompt n =
     ''You are a helpful Zendesk support analyst. You've been asked to analyze ticket #'' @ str_int n @ ''.''
     @ nl # nl # ''Please fetch the ticket info and comments to analyze it and provide:''
     @ nl # ''1. A summary of the issue''
     @ nl # ''2. The current status and timeline''
     @ nl # ''3. Key points of interaction''
     @ nl # nl # ''Remember to be professional and focus on actionable insights.''"

definition draft_prompt :: "int \<Rightarrow> string" where
  \<comment> \<open>the same for the response template\<close>
  "draft_prompt n =
     ''You are a helpful Zendesk support agent. You need to draft a response to ticket #'' @ str_int n @ ''.''
     @ nl # nl # ''Please fetch the ticket info, comments and knowledge base to draft a professional and helpful response that:''
     @ nl # ''1. Acknowledges the customer's concern''
     @ nl # ''2. Addresses the specific issues raised''
     @ nl # ''3. Provides clear next steps or ask for specific details need to proceed''
     @ nl # ''4. Maintains a friendly and professional tone''
     @ nl # ''5. Ask for confirmation before commenting on the ticket''
     @ nl # nl # ''The response should be formatted well and ready to be posted as a comment.''"

record text_content =
  tc_type :: string
  tc_text :: string

record prompt_message =
  pm_role :: string
  pm_content :: text_content

record get_prompt_result =
  gp_description :: string
  gp_messages :: "prompt_message list"

definition TextContent :: "string \<Rightarrow> text_content" where
  \<comment> \<open>\<^verbatim>\<open>types.TextContent(type="text", text=t)\<close>\<close>
  "TextContent t = \<lparr>tc_type = ''text'', tc_text = t\<rparr>"

definition prompt_try :: "string \<Rightarrow> int \<Rightarrow> exn + get_prompt_result" where
  \<comment> \<open>the body of the \<^verbatim>\<open>try\<close> block of \<^verbatim>\<open>handle_get_prompt\<close>\<close>
  "prompt_try name ticket_id =
     (if name = ''analyze-ticket'' then
        Inr \<lparr>gp_description = ''Analysis prompt for ticket #'' @ str_int ticket_id,
             gp_messages = [\<lparr>pm_role = ''user'',
                pm_content = TextContent (py_strip (format_ticket_id TICKET_ANALYSIS_TEMPLATE ticket_id))\<rparr>]\<rparr>
      else if name = ''draft-ticket-response'' then
        Inr \<lparr>gp_description = ''Response draft prompt for ticket #'' @ str_int ticket_id,
             gp_messages = [\<lparr>pm_role = ''user'',
                pm_content = TextContent (py_strip (format_ticket_id COMMENT_DRAFT_TEMPLATE ticket_id))\<rparr>]\<rparr>
      else Inl (ValueError (''Unknown prompt: '' @ name)))"

definition handle_get_prompt ::
  "python \<Rightarrow> string \<Rightarrow> (string \<times> string) list option \<Rightarrow> (exn + get_prompt_result) \<times> string list" where
  \<comment> \<open>The result, or the exception that leaves the handler, and the messages given to
      \<^verbatim>\<open>logger.error\<close>. The values of a prompt's arguments are strings
      (\<^verbatim>\<open>Dict[str, str]\<close>).\<close>
  "handle_get_prompt py name arguments =
     (case arguments of
        None \<Rightarrow> (Inl (ValueError ''Missing required argument: ticket_id''), [])
      | Some args \<Rightarrow>
          if args = [] then (Inl (ValueError ''Missing required argument: ticket_id''), [])
          else
            (case map_of args ''ticket_id'' of
               None \<Rightarrow> (Inl (ValueError ''Missing required argument: ticket_id''), [])
             | Some v \<Rightarrow>
                 (case int_of_str py v of
                    Inl e \<Rightarrow> (Inl e, [])
                  | Inr ticket_id \<Rightarrow>
                      (case prompt_try name ticket_id of
                         Inl e \<Rightarrow> (Inl e, [''Error generating prompt: '' @ str_exn py e])
                       | Inr r \<Rightarrow> (Inr r, [])))))"

section \<open>server.py: tools\<close>

record tool =
  tool_name :: string
  tool_properties :: "string list"
  tool_required :: "string list"

definition handle_list_tools :: "tool list" where
  \<comment> \<open>the catalog: each tool's name, the properties of its input schema and the
      \<^verbatim>\<open>required\<close> list of that schema\<close>
  "handle_list_tools =
     [\<lparr>tool_name = ''get_ticket'', tool_properties = [''ticket_id''],
        tool_required = [''ticket_id'']\<rparr>,
      \<lparr>tool_name = ''create_ticket'',
        tool_properties = [''subject'', ''description'', ''requester_id'', ''assignee_id'',
                           ''priority'', ''type'', ''tags'', ''custom_fields''],
        tool_required = [''subject'', ''description'']\<rparr>,
      \<lparr>tool_name = ''get_tickets'',
        tool_properties = [''page'', ''per_page'', ''sort_by'', ''sort_order''],
        tool_required = []\<rparr>,
      \<lparr>tool_name = ''get_ticket_comments'', tool_properties = [''ticket_id''],
        tool_required = [''ticket_id'']\<rparr>,
      \<lparr>tool_name = ''create_ticket_comment'',
        tool_properties = [''ticket_id'', ''comment'', ''public''],
        tool_required = [''ticket_id'', ''comment'']\<rparr>,
      \<lparr>tool_name = ''update_ticket'',
        tool_properties = [''ticket_id'', ''subject'', ''status'', ''priority'', ''type'',
                           ''assignee_id'', ''requester_id'', ''tags'', ''custom_fields'', ''due_at''],
        tool_required = [''ticket_id'']\<rparr>,
      \<lparr>tool_name = ''get_user'', tool_properties = [''user_id''],
        tool_required = [''user_id'']\<rparr>,
      \<lparr>tool_name = ''search_users_by_email'', tool_properties = [''email''],
        tool_required = [''email'']\<rparr>,
      \<lparr>tool_name = ''create_user'',
        tool_properties = [''email'', ''name'', ''role'', ''phone'', ''organization_id''],
        tool_required = [''email'', ''name'']\<rparr>,
      \<lparr>tool_name = ''get_user_tickets'', tool_properties = [''user_id'', ''status''],
        tool_required = [''user_id'']\<rparr>]"

text \<open>
  The module's \<^verbatim>\<open>zendesk_client\<close> object, as the dispatcher sees it: a method call with
  its arguments either raises or returns a JSON-serialisable value, and may change the
  remote world \<open>'w\<close>. A \<open>client_call\<close> names the method and holds the arguments in the
  order of the method's signature.
\<close>

datatype client_call =
    Get_ticket json
  | Create_ticket json json json json json json json json
  | Get_tickets json json json json
  | Get_ticket_comments json
  | Post_comment json json json
  | Update_ticket int py_dict
  | Get_user json
  | Search_users_by_email json
  | Create_user json json json json json
  | Get_user_tickets json json

type_synonym 'w zendesk_client = "client_call \<Rightarrow> 'w \<Rightarrow> (exn + json) \<times> 'w"

definition require_arguments :: "py_dict option \<Rightarrow> exn + py_dict" where
  \<comment> \<open>\<^verbatim>\<open>if not arguments: raise ValueError("Missing arguments")\<close>\<close>
  "require_arguments arguments =
     (case arguments of
        None \<Rightarrow> Inl (ValueError ''Missing arguments'')
      | Some args \<Rightarrow> if args = [] then Inl (ValueError ''Missing arguments'') else Inr args)"

definition get_or :: "py_dict option \<Rightarrow> string \<Rightarrow> json \<Rightarrow> json" where
  \<comment> \<open>\<^verbatim>\<open>arguments.get(k, default) if arguments else default\<close>\<close>
  "get_or arguments k dflt =
     (case arguments of
        None \<Rightarrow> dflt
      | Some args \<Rightarrow> if args = [] then dflt else dict_get args k dflt)"

definition py_len :: "json \<Rightarrow> exn + nat" where
  \<comment> \<open>\<^verbatim>\<open>len(v)\<close>\<close>
  "py_len v =
     (case v of
        JStr s \<Rightarrow> Inr (length s)
      | JList xs \<Rightarrow> Inr (length xs)
      | JDict d \<Rightarrow> Inr (length d)
      | _ \<Rightarrow> Inl (TypeError (''object of type '' @ [CHR 0x27] @ type_name v @ [CHR 0x27]
                              @ '' has no len()'')))"

definition tool_call :: "python \<Rightarrow> string \<Rightarrow> py_dict option \<Rightarrow> exn + client_call" where
  \<comment> \<open>each branch of \<^verbatim>\<open>handle_call_tool\<close> up to its call of the client: the exception
      raised before the call, or the call that is made\<close>
  "tool_call py name arguments =
     (if name = ''get_ticket'' then
        (case require_arguments arguments of Inl e \<Rightarrow> Inl e | Inr args \<Rightarrow>
         (case dict_getitem args ''ticket_id'' of Inl e \<Rightarrow> Inl e | Inr ticket_id \<Rightarrow>
           Inr (Get_ticket ticket_id)))
      else if name = ''create_ticket'' then
        (case require_arguments arguments of Inl e \<Rightarrow> Inl e | Inr args \<Rightarrow>
           Inr (Create_ticket (dict_get args ''subject'' JNull) (dict_get args ''description'' JNull)
                  (dict_get args ''requester_id'' JNull) (dict_get args ''assignee_id'' JNull)
                  (dict_get args ''priority'' JNull) (dict_get args ''type'' JNull)
                  (dict_get args ''tags'' JNull) (dict_get args ''custom_fields'' JNull)))
      else if name = ''get_tickets'' then
        Inr (Get_tickets (get_or arguments ''page'' (JInt 1)) (get_or arguments ''per_page'' (JInt 25))
               (get_or arguments ''sort_by'' (JStr ''created_at''))
               (get_or arguments ''sort_order'' (JStr ''desc'')))
      else if name = ''get_ticket_comments'' then
        (case require_arguments arguments of Inl e \<Rightarrow> Inl e | Inr args \<Rightarrow>
         (case dict_getitem args ''ticket_id'' of Inl e \<Rightarrow> Inl e | Inr ticket_id \<Rightarrow>
           Inr (Get_ticket_comments ticket_id)))
      else if name = ''create_ticket_comment'' then
        (case require_arguments arguments of Inl e \<Rightarrow> Inl e | Inr args \<Rightarrow>
         (let public = dict_get args ''public'' (JBool True) in
          (case dict_getitem args ''ticket_id'' of Inl e \<Rightarrow> Inl e | Inr ticket_id \<Rightarrow>
           (case dict_getitem args ''comment'' of Inl e \<Rightarrow> Inl e | Inr comment \<Rightarrow>
             Inr (Post_comment ticket_id comment public)))))
      else if name = ''update_ticket'' then
        (case require_arguments arguments of Inl e \<Rightarrow> Inl e | Inr args \<Rightarrow>
         (let ticket_id = dict_get args ''ticket_id'' JNull in
          if ticket_id = JNull then Inl (ValueError ''ticket_id is required'')
          else
            (let update_fields = filter (\<lambda>(k, v). k \<noteq> ''ticket_id'') args in
             (case py_int py ticket_id of Inl e \<Rightarrow> Inl e | Inr n \<Rightarrow>
               if ''self'' \<in> set (map fst update_fields)
               then Inl (TypeError (''ZendeskClient.update_ticket() got multiple values for argument ''
                                    @ [CHR 0x27] @ ''self'' @ [CHR 0x27]))
               else Inr (Update_ticket n update_fields)))))
      else if name = ''get_user'' then
        (case require_arguments arguments of Inl e \<Rightarrow> Inl e | Inr args \<Rightarrow>
         (case dict_getitem args ''user_id'' of Inl e \<Rightarrow> Inl e | Inr user_id \<Rightarrow>
           Inr (Get_user user_id)))
      else if name = ''search_users_by_email'' then
        (case require_arguments arguments of Inl e \<Rightarrow> Inl e | Inr args \<Rightarrow>
         (case dict_getitem args ''email'' of Inl e \<Rightarrow> Inl e | Inr email \<Rightarrow>
           Inr (Search_users_by_email email)))
      else if name = ''create_user'' then
        (case require_arguments arguments of Inl e \<Rightarrow> Inl e | Inr args \<Rightarrow>
         (case dict_getitem args ''email'' of Inl e \<Rightarrow> Inl e | Inr email \<Rightarrow>
          (case dict_getitem args ''name'' of Inl e \<Rightarrow> Inl e | Inr user_name \<Rightarrow>
            Inr (Create_user email user_name (dict_get args ''role'' JNull)
                   (dict_get args ''phone'' JNull) (dict_get args ''organization_id'' JNull)))))
      else if name = ''get_user_tickets'' then
        (case require_arguments arguments of Inl e \<Rightarrow> Inl e | Inr args \<Rightarrow>
         (case dict_getitem args ''user_id'' of Inl e \<Rightarrow> Inl e | Inr user_id \<Rightarrow>
           Inr (Get_user_tickets user_id (dict_get args ''status'' JNull))))
      else Inl (ValueError (''Unknown tool: '' @ name)))"

definition tool_render :: "python \<Rightarrow> string \<Rightarrow> py_dict option \<Rightarrow> json \<Rightarrow> exn + text_content list" where
  \<comment> \<open>each branch of \<^verbatim>\<open>handle_call_tool\<close> after its call of the client: what it
      returns for the client's result\<close>
  "tool_render py name arguments result =
     (if name = ''get_ticket'' then Inr [TextContent (py_dumps py result None)]
      else if name = ''create_ticket'' then
        Inr [TextContent (py_dumps py
               (JDict [(''message'', JStr ''Ticket created successfully''), (''ticket'', result)]) (Some 2))]
      else if name = ''get_tickets'' then Inr [TextContent (py_dumps py result (Some 2))]
      else if name = ''get_ticket_comments'' then Inr [TextContent (py_dumps py result None)]
      else if name = ''create_ticket_comment'' then
        Inr [TextContent (''Comment created successfully: '' @ py_str py result)]
      else if name = ''update_ticket'' then
        Inr [TextContent (py_dumps py
               (JDict [(''message'', JStr ''Ticket updated successfully''), (''ticket'', result)]) (Some 2))]
      else if name = ''get_user'' then Inr [TextContent (py_dumps py result (Some 2))]
      else if name = ''search_users_by_email'' then
        (case py_len result of Inl e \<Rightarrow> Inl e | Inr n \<Rightarrow>
           Inr [TextContent (py_dumps py
                  (JDict [(''found'', JInt (int n)), (''users'', result)]) (Some 2))])
      else if name = ''create_user'' then
        Inr [TextContent (py_dumps py
               (JDict [(''message'', JStr ''User created successfully''), (''user'', result)]) (Some 2))]
      else if name = ''get_user_tickets'' then
        (case require_arguments arguments of Inl e \<Rightarrow> Inl e | Inr args \<Rightarrow>
         (case dict_getitem args ''user_id'' of Inl e \<Rightarrow> Inl e | Inr user_id \<Rightarrow>
          (case py_len result of Inl e \<Rightarrow> Inl e | Inr n \<Rightarrow>
            Inr [TextContent (py_dumps py
                   (JDict [(''user_id'', user_id), (''count'', JInt (int n)), (''tickets'', result)])
                   (Some 2))])))
      else Inl (ValueError (''Unknown tool: '' @ name)))"

text \<open>
  What the server process keeps between requests. The module-level names of
  \<^verbatim>\<open>server.py\<close> are the two template constants, \<^verbatim>\<open>zendesk_client\<close>, \<^verbatim>\<open>logger\<close>,
  \<^verbatim>\<open>get_cached_kb\<close> with the store of its \<^verbatim>\<open>ttl_cache\<close> decorator, and the objects of the
  protocol library (\<^verbatim>\<open>server\<close>, \<^verbatim>\<open>sse\<close>), which no handler body touches. None of these
  names is assigned again after the module is loaded. \<^verbatim>\<open>zendesk_client\<close> is a parameter
  of the model; its class assigns its attributes in \<^verbatim>\<open>__init__\<close> only, and what the SDK
  object behind it keeps belongs to the remote world \<open>'w\<close>. What a handler can change
  in the process is therefore the store of the cache (its one entry, for the empty
  argument list, with the expiry time, and the decorator's counters of hits and misses)
  and what has been given to \<^verbatim>\<open>logger\<close>. Every handler below takes this state and returns
  it.
\<close>

record ttl_cache =
  cache_entry :: "(json \<times> real) option"
  cache_hits :: nat
  cache_misses :: nat

record server_state =
  kb_cache :: ttl_cache
  logged :: "(string \<times> string) list"

definition initial_state :: server_state where
  "initial_state =
     \<lparr>kb_cache = \<lparr>cache_entry = None, cache_hits = 0, cache_misses = 0\<rparr>, logged = []\<rparr>"

definition logger :: "string \<Rightarrow> string \<Rightarrow> server_state \<Rightarrow> server_state" where
  \<comment> \<open>\<^verbatim>\<open>logger.debug(msg)\<close>, \<^verbatim>\<open>logger.error(msg)\<close>: the call is recorded with its level\<close>
  "logger level msg s = s\<lparr>logged := logged s @ [(level, msg)]\<rparr>"

definition handle_call_tool_try ::
  "python \<Rightarrow> 'w zendesk_client \<Rightarrow> string \<Rightarrow> py_dict option \<Rightarrow> server_state \<Rightarrow> 'w
     \<Rightarrow> (exn + text_content list) \<times> server_state \<times> 'w" where
  \<comment> \<open>the body of the \<^verbatim>\<open>try\<close> block\<close>
  "handle_call_tool_try py zendesk_client name arguments s w =
     (case tool_call py name arguments of
        Inl e \<Rightarrow> (Inl e, s, w)
      | Inr call \<Rightarrow>
          (case zendesk_client call w of
             (Inl e, w') \<Rightarrow> (Inl e, s, w')
           | (Inr result, w') \<Rightarrow> (tool_render py name arguments result, s, w')))"

definition handle_call_tool ::
  "python \<Rightarrow> 'w zendesk_client \<Rightarrow> string \<Rightarrow> py_dict option \<Rightarrow> server_state \<Rightarrow> 'w
     \<Rightarrow> (exn + text_content list) \<times> server_state \<times> 'w" where
  "handle_call_tool py zendesk_client name arguments s w =
     (case handle_call_tool_try py zendesk_client name arguments s w of
        (Inr content, s', w') \<Rightarrow> (Inr content, s', w')
      | (Inl e, s', w') \<Rightarrow> (Inr [TextContent (''Error: '' @ str_exn py e)], s', w'))"

definition is_error_result :: "text_content list \<Rightarrow> bool" where
  \<comment> \<open>the shape of what the \<^verbatim>\<open>except\<close> clause of \<^verbatim>\<open>handle_call_tool\<close> returns\<close>
  "is_error_result content =
     (case content of
        [c] \<Rightarrow> tc_type c = ''text'' \<and> prefix ''Error: '' (tc_text c)
      | _ \<Rightarrow> False)"

section \<open>zendesk_client.py\<close>

text \<open>
  What \<^verbatim>\<open>ZendeskClient\<close> talks to: the SDK object \<^verbatim>\<open>self.client\<close> and the HTTP endpoint
  reached through \<^verbatim>\<open>urllib\<close>. Each operation either raises or returns, and may change the
  remote world \<open>'w\<close>. A ticket object of the SDK is the association list of its
  attributes; a section or an article is the record of the attributes the client reads.
  \<open>urlopen_json\<close> stands for building the request to a path under \<^verbatim>\<open>base_url\<close> with the
  given query parameters, opening it, and parsing the body with \<^verbatim>\<open>json.loads\<close>.
\<close>

record hc_section =
  sec_id :: json
  sec_name :: string
  sec_description :: json

record hc_article =
  art_id :: json
  art_title :: json
  art_body :: json
  art_updated_at :: json
  art_html_url :: json

record 'w remote =
  tickets_get :: "int \<Rightarrow> 'w \<Rightarrow> (exn + py_dict) \<times> 'w"
  tickets_update :: "py_dict \<Rightarrow> 'w \<Rightarrow> (exn + unit) \<times> 'w"
  help_center_sections :: "'w \<Rightarrow> (exn + hc_section list) \<times> 'w"
  sections_articles :: "json \<Rightarrow> 'w \<Rightarrow> (exn + hc_article list) \<times> 'w"
  urlopen_json :: "string \<Rightarrow> (string \<times> string) list \<Rightarrow> 'w \<Rightarrow> (exn + json) \<times> 'w"

definition quoted :: "string \<Rightarrow> string" where
  "quoted s = [CHR 0x27] @ s @ [CHR 0x27]"

definition no_attribute :: "json \<Rightarrow> string \<Rightarrow> exn" where
  "no_attribute v a = AttributeError (quoted (type_name v) @ '' object has no attribute '' @ quoted a)"


definition py_iter :: "json \<Rightarrow> exn + json list" where
  \<comment> \<open>the items that \<^verbatim>\<open>for x in v\<close> and \<^verbatim>\<open>list(v)\<close> visit\<close>
  "py_iter v =
     (case v of
        JList xs \<Rightarrow> Inr xs
      | JStr s \<Rightarrow> Inr (map (\<lambda>c. JStr [c]) s)
      | JDict d \<Rightarrow> Inr (map (\<lambda>(k, x). JStr k) d)
      | _ \<Rightarrow> Inl (TypeError (quoted (type_name v) @ '' object is not iterable'')))"

definition dict_set :: "py_dict \<Rightarrow> string \<Rightarrow> json \<Rightarrow> py_dict" where
  \<comment> \<open>\<^verbatim>\<open>d[k] = v\<close>, and \<^verbatim>\<open>setattr(obj, k, v)\<close> on an object: a key that is present keeps its place\<close>
  "dict_set d k v = AList.update k v d"

subsection \<open>get_tickets\<close>








subsection \<open>get_all_articles\<close>

definition article_record :: "python \<Rightarrow> hc_article \<Rightarrow> json" where
  "article_record py a =
     JDict [(''id'', art_id a), (''title'', art_title a), (''body'', art_body a),
            (''updated_at'', JStr (py_str py (art_updated_at a))), (''url'', art_html_url a)]"

definition section_record :: "python \<Rightarrow> hc_section \<Rightarrow> hc_article list \<Rightarrow> json" where
  "section_record py sec articles =
     JDict [(''section_id'', sec_id sec), (''description'', sec_description sec),
            (''articles'', JList (map (article_record py) articles))]"

fun kb_sections :: "python \<Rightarrow> 'w remote \<Rightarrow> hc_section list \<Rightarrow> py_dict \<Rightarrow> 'w \<Rightarrow> (exn + py_dict) \<times> 'w" where
  \<comment> \<open>the loop over the sections, with the dict \<^verbatim>\<open>kb\<close> built so far\<close>
  "kb_sections py r [] kb w = (Inr kb, w)"
| "kb_sections py r (sec # rest) kb w =
     (case sections_articles r (sec_id sec) w of
        (Inl e, w') \<Rightarrow> (Inl e, w')
      | (Inr articles, w') \<Rightarrow>
          kb_sections py r rest (dict_set kb (sec_name sec) (section_record py sec articles)) w')"

definition get_all_articles :: "python \<Rightarrow> 'w remote \<Rightarrow> 'w \<Rightarrow> (exn + json) \<times> 'w" where
  "get_all_articles py r w =
     (case help_center_sections r w of
        (Inl e, w') \<Rightarrow> (Inl (Exception (''Failed to fetch knowledge base: '' @ str_exn py e)), w')
      | (Inr sections, w') \<Rightarrow>
          (case kb_sections py r sections [] w' of
             (Inl e, w'') \<Rightarrow> (Inl (Exception (''Failed to fetch knowledge base: '' @ str_exn py e)), w'')
           | (Inr kb, w'') \<Rightarrow> (Inr (JDict kb), w'')))"

subsection \<open>update_ticket\<close>

fun set_fields :: "py_dict \<Rightarrow> py_dict \<Rightarrow> py_dict" where
  \<comment> \<open>the loop over \<^verbatim>\<open>fields.items()\<close> on the loaded ticket\<close>
  "set_fields [] ticket = ticket"
| "set_fields ((key, v) # flds) ticket =
     (if v = JNull then set_fields flds ticket
      else set_fields flds (dict_set ticket key v))"

definition tags_list :: "json \<Rightarrow> exn + json" where
  \<comment> \<open>\<^verbatim>\<open>list(tags or [])\<close>\<close>
  "tags_list tags =
     (if truthy tags then (case py_iter tags of Inl e \<Rightarrow> Inl e | Inr xs \<Rightarrow> Inr (JList xs))
      else Inr (JList []))"

definition ticket_record :: "python \<Rightarrow> py_dict \<Rightarrow> exn + json" where
  \<comment> \<open>the dict returned for the refreshed ticket; an attribute that is not set reads as
      \<^verbatim>\<open>None\<close>\<close>
  "ticket_record py refreshed =
     (case tags_list (dict_get refreshed ''tags'' (JList [])) of
        Inl e \<Rightarrow> Inl e
      | Inr tags \<Rightarrow>
          Inr (JDict [(''id'', dict_get refreshed ''id'' JNull),
                      (''subject'', dict_get refreshed ''subject'' JNull),
                      (''description'', dict_get refreshed ''description'' JNull),
                      (''status'', dict_get refreshed ''status'' JNull),
                      (''priority'', dict_get refreshed ''priority'' JNull),
                      (''type'', dict_get refreshed ''type'' JNull),
                      (''created_at'', JStr (py_str py (dict_get refreshed ''created_at'' JNull))),
                      (''updated_at'', JStr (py_str py (dict_get refreshed ''updated_at'' JNull))),
                      (''requester_id'', dict_get refreshed ''requester_id'' JNull),
                      (''assignee_id'', dict_get refreshed ''assignee_id'' JNull),
                      (''organization_id'', dict_get refreshed ''organization_id'' JNull),
                      (''tags'', tags)]))"

definition update_ticket_try ::
  "python \<Rightarrow> 'w remote \<Rightarrow> int \<Rightarrow> py_dict \<Rightarrow> 'w \<Rightarrow> (exn + json) \<times> 'w" where
  "update_ticket_try py r ticket_id flds w =
     (case tickets_get r ticket_id w of
        (Inl e, w1) \<Rightarrow> (Inl e, w1)
      | (Inr ticket, w1) \<Rightarrow>
          (case tickets_update r (set_fields flds ticket) w1 of
             (Inl e, w2) \<Rightarrow> (Inl e, w2)
           | (Inr audit, w2) \<Rightarrow>
               (case tickets_get r ticket_id w2 of
                  (Inl e, w3) \<Rightarrow> (Inl e, w3)
                | (Inr refreshed, w3) \<Rightarrow> (ticket_record py refreshed, w3))))"

definition update_ticket ::
  "python \<Rightarrow> 'w remote \<Rightarrow> int \<Rightarrow> py_dict \<Rightarrow> 'w \<Rightarrow> (exn + json) \<times> 'w" where
  "update_ticket py r ticket_id flds w =
     (case update_ticket_try py r ticket_id flds w of
        (Inr result, w') \<Rightarrow> (Inr result, w')
      | (Inl e, w') \<Rightarrow>
          (Inl (Exception (''Failed to update ticket '' @ str_int ticket_id @ '': '' @ str_exn py e)), w'))"

section \<open>server.py: the knowledge-base resource\<close>

record resource =
  res_uri :: string
  res_name :: string
  res_description :: string
  res_mimeType :: string


text \<open>
  \<^verbatim>\<open>get_cached_kb\<close> is \<^verbatim>\<open>get_all_articles\<close> under \<^verbatim>\<open>ttl_cache(ttl=3600)\<close>. The decorator
  looks the entry up and returns it while the timer is below its expiry time; otherwise
  it counts a miss, calls the function and, when that returns, stores the value with
  expiry time timer + ttl. An exception of the function leaves the store as it is. \<open>now\<close>
  is the reading of the timer (\<^verbatim>\<open>time.monotonic\<close>) during the call, taken as one
  reading.
\<close>

definition get_cached_kb ::
  "python \<Rightarrow> 'w remote \<Rightarrow> real \<Rightarrow> ttl_cache \<Rightarrow> 'w \<Rightarrow> (exn + json) \<times> ttl_cache \<times> 'w" where
  "get_cached_kb py r now c w =
     (case (case cache_entry c of
              None \<Rightarrow> None
            | Some (v, expires) \<Rightarrow> if now < expires then Some v else None) of
        Some v \<Rightarrow> (Inr v, c\<lparr>cache_hits := cache_hits c + 1\<rparr>, w)
      | None \<Rightarrow>
          (case get_all_articles py r w of
             (Inl e, w') \<Rightarrow> (Inl e, c\<lparr>cache_misses := cache_misses c + 1\<rparr>, w')
           | (Inr v, w') \<Rightarrow>
               (Inr v, c\<lparr>cache_misses := cache_misses c + 1, cache_entry := Some (v, now + 3600)\<rparr>, w')))"

definition py_subscript :: "json \<Rightarrow> string \<Rightarrow> exn + json" where
  \<comment> \<open>\<^verbatim>\<open>v[k]\<close> for a string \<open>k\<close>\<close>
  "py_subscript v k =
     (case v of
        JDict d \<Rightarrow> dict_getitem d k
      | JList xs \<Rightarrow> Inl (TypeError ''list indices must be integers or slices, not str'')
      | JStr s \<Rightarrow> Inl (TypeError (''string indices must be integers, not '' @ quoted ''str''))
      | _ \<Rightarrow> Inl (TypeError (quoted (type_name v) @ '' object is not subscriptable'')))"

definition py_values :: "json \<Rightarrow> exn + json list" where
  \<comment> \<open>\<^verbatim>\<open>v.values()\<close>\<close>
  "py_values v = (case v of JDict d \<Rightarrow> Inr (map snd d) | _ \<Rightarrow> Inl (no_attribute v ''values''))"

fun sum_articles :: "json list \<Rightarrow> exn + nat" where
  \<comment> \<open>\<^verbatim>\<open>sum(len(section['articles']) for section in ...)\<close>\<close>
  "sum_articles [] = Inr 0"
| "sum_articles (sec # rest) =
     (case py_subscript sec ''articles'' of Inl e \<Rightarrow> Inl e | Inr articles \<Rightarrow>
      (case py_len articles of Inl e \<Rightarrow> Inl e | Inr n \<Rightarrow>
       (case sum_articles rest of Inl e \<Rightarrow> Inl e | Inr m \<Rightarrow> Inr (n + m))))"

definition kb_document :: "json \<Rightarrow> exn + json" where
  \<comment> \<open>the value given to \<^verbatim>\<open>json.dumps\<close> in \<^verbatim>\<open>handle_read_resource\<close>\<close>
  "kb_document kb_data =
     (case py_len kb_data of Inl e \<Rightarrow> Inl e | Inr n \<Rightarrow>
      (case py_values kb_data of Inl e \<Rightarrow> Inl e | Inr secs \<Rightarrow>
       (case sum_articles secs of Inl e \<Rightarrow> Inl e | Inr m \<Rightarrow>
          Inr (JDict [(''knowledge_base'', kb_data),
                      (''metadata'', JDict [(''sections'', JInt (int n)),
                                            (''total_articles'', JInt (int m))])]))))"

definition url_scheme :: "string \<Rightarrow> string" where
  \<comment> \<open>\<^verbatim>\<open>uri.scheme\<close>; a URI is modelled by its text \<^verbatim>\<open>str(uri)\<close>\<close>
  "url_scheme uri = takeWhile (\<lambda>c. c \<noteq> CHR '':'') uri"

definition url_authority :: "string \<Rightarrow> string" where
  \<comment> \<open>the text between \<^verbatim>\<open>scheme://\<close> and the next \<^verbatim>\<open>/\<close>, \<^verbatim>\<open>?\<close> or \<^verbatim>\<open>#\<close>\<close>
  "url_authority uri =
     takeWhile (\<lambda>c. c \<notin> set ''/?#'') (drop (length (url_scheme uri) + 3) uri)"

definition handle_read_resource ::
  "python \<Rightarrow> 'w remote \<Rightarrow> string \<Rightarrow> real \<Rightarrow> server_state \<Rightarrow> 'w
     \<Rightarrow> (exn + string) \<times> server_state \<times> 'w" where
  "handle_read_resource py r uri now s0 w =
     (let s = logger ''DEBUG'' (''Handling read_resource request for URI: '' @ uri) s0 in
      if url_scheme uri \<noteq> ''zendesk''
      then (Inl (ValueError (''Unsupported URI scheme: '' @ url_scheme uri)),
            logger ''ERROR'' (''Unsupported URI scheme: '' @ url_scheme uri) s, w)
      else
        (let path = py_replace ''zendesk://'' [] uri in
         if path \<noteq> ''knowledge-base''
         then (Inl (ValueError (''Unknown resource path: '' @ path)),
               logger ''ERROR'' (''Unknown resource path: '' @ path) s, w)
         else
           (case get_cached_kb py r now (kb_cache s) w of
              (Inl e, c', w') \<Rightarrow>
                (Inl e, logger ''ERROR'' (''Error fetching knowledge base: '' @ str_exn py e)
                          (s\<lparr>kb_cache := c'\<rparr>), w')
            | (Inr kb_data, c', w') \<Rightarrow>
                (case kb_document kb_data of
                   Inl e \<Rightarrow>
                     (Inl e, logger ''ERROR'' (''Error fetching knowledge base: '' @ str_exn py e)
                               (s\<lparr>kb_cache := c'\<rparr>), w')
                 | Inr doc \<Rightarrow> (Inr (py_dumps py doc (Some 2)), s\<lparr>kb_cache := c'\<rparr>, w')))))"


definition is_kb :: "json \<Rightarrow> bool" where
  \<comment> \<open>the shape of a snapshot: a dict of section records, each with a list under
      \<^verbatim>\<open>articles\<close>\<close>
  "is_kb v =
     (case v of
        JDict secs \<Rightarrow>
          distinct (map fst secs) \<and>
          list_all (\<lambda>(name, sec). case sec of
                       JDict f \<Rightarrow> (case map_of f ''articles'' of Some (JList as) \<Rightarrow> True | _ \<Rightarrow> False)
                     | _ \<Rightarrow> False) secs
      | _ \<Rightarrow> False)"

definition n_articles :: "json \<Rightarrow> nat" where
  \<comment> \<open>the length of the \<^verbatim>\<open>articles\<close> list of a section record\<close>
  "n_articles sec =
     (case sec of
        JDict f \<Rightarrow> (case map_of f ''articles'' of Some (JList as) \<Rightarrow> length as | _ \<Rightarrow> 0)
      | _ \<Rightarrow> 0)"

definition cache_ok :: "server_state \<Rightarrow> bool" where
  \<comment> \<open>what the store holds, if anything, is a snapshot\<close>
  "cache_ok s = (case cache_entry (kb_cache s) of None \<Rightarrow> True | Some (v, expires) \<Rightarrow> is_kb v)"

section \<open>Concrete environments\<close>

text \<open>
  Small clients and remotes on which the statements below are instantiated. The remote
  world is \<open>unit\<close> where nothing is recorded, and a counter of calls where calls are
  counted.
\<close>

definition failing_client :: "unit zendesk_client" where
  "failing_client call w = (Inl (Exception ''Failed to get ticket 7: not found''), w)"

definition echo_client :: "unit zendesk_client" where
  "echo_client call w = (Inr (JDict [(''id'', JInt 7)]), w)"





definition recording_remote :: "py_dict list remote" where
  \<comment> \<open>every ticket reads as open with high priority; the world is the list of the
      ticket objects given to \<^verbatim>\<open>tickets.update\<close>\<close>
  "recording_remote =
     \<lparr>tickets_get = (\<lambda>n w. (Inr [(''id'', JInt n), (''status'', JStr ''open''),
                                     (''priority'', JStr ''high'')], w)),
      tickets_update = (\<lambda>ticket w. (Inr (), w @ [ticket])),
      help_center_sections = (\<lambda>w. (Inr [], w)),
      sections_articles = (\<lambda>i w. (Inr [], w)),
      urlopen_json = (\<lambda>path params w. (Inl (HTTPError 404 ''Not Found'' None), w))\<rparr>"

definition help_center :: "nat remote" where
  \<comment> \<open>a help center with two sections, of two articles and of one; the world counts the
      calls of \<^verbatim>\<open>help_center.sections()\<close>\<close>
  "help_center =
     \<lparr>tickets_get = (\<lambda>n w. (Inl (Exception ''no tickets''), w)),
      tickets_update = (\<lambda>ticket w. (Inl (Exception ''no tickets''), w)),
      help_center_sections =
        (\<lambda>w. (Inr [\<lparr>sec_id = JInt 1, sec_name = ''Billing'', sec_description = JNull\<rparr>,
                     \<lparr>sec_id = JInt 2, sec_name = ''Shipping'', sec_description = JStr ''Parcels''\<rparr>],
               Suc w)),
      sections_articles =
        (\<lambda>i w. (Inr (if i = JInt 1
                       then [\<lparr>art_id = JInt 10, art_title = JStr ''Refunds'', art_body = JNull,
                               art_updated_at = JStr ''2024-05-01'', art_html_url = JNull\<rparr>,
                             \<lparr>art_id = JInt 11, art_title = JStr ''Invoices'', art_body = JNull,
                               art_updated_at = JStr ''2024-05-02'', art_html_url = JNull\<rparr>]
                       else [\<lparr>art_id = JInt 20, art_title = JStr ''Tracking'', art_body = JNull,
                               art_updated_at = JStr ''2024-05-03'', art_html_url = JNull\<rparr>]), w)),
      urlopen_json = (\<lambda>path params w. (Inl (HTTPError 404 ''Not Found'' None), w))\<rparr>"

definition help_center_kb :: json where
  \<comment> \<open>the snapshot that \<^verbatim>\<open>get_all_articles\<close> builds from \<open>help_center\<close>\<close>
  "help_center_kb =
     JDict [(''Billing'',
             JDict [(''section_id'', JInt 1), (''description'', JNull),
                    (''articles'',
                     JList [JDict [(''id'', JInt 10), (''title'', JStr ''Refunds''), (''body'', JNull),
                                   (''updated_at'', JStr ''2024-05-01''), (''url'', JNull)],
                            JDict [(''id'', JInt 11), (''title'', JStr ''Invoices''), (''body'', JNull),
                                   (''updated_at'', JStr ''2024-05-02''), (''url'', JNull)]])]),
            (''Shipping'',
             JDict [(''section_id'', JInt 2), (''description'', JStr ''Parcels''),
                    (''articles'',
                     JList [JDict [(''id'', JInt 20), (''title'', JStr ''Tracking''), (''body'', JNull),
                                   (''updated_at'', JStr ''2024-05-03''), (''url'', JNull)]])])]"


section \<open>Properties of the prompts\<close>

lemma int_of_str_raises_ValueError:
  "int_of_str py s = Inl e \<Longrightarrow> \<exists>m. e = ValueError m"
  by (auto simp: int_of_str_def invalid_literal_def Let_def split: if_splits option.splits)

lemma analysis_text:
  "py_strip (format_ticket_id TICKET_ANALYSIS_TEMPLATE n) = analysis_prompt n"
  by (simp add: py_strip_def format_ticket_id_def TICKET_ANALYSIS_TEMPLATE_def is_space_def
        analysis_prompt_def)

lemma draft_text:
  "py_strip (format_ticket_id COMMENT_DRAFT_TEMPLATE n) = draft_prompt n"
  by (simp add: py_strip_def format_ticket_id_def COMMENT_DRAFT_TEMPLATE_def is_space_def
        draft_prompt_def)

lemma prompt_missing:
  "arguments = None \<or> (\<exists>args. arguments = Some args \<and> map_of args ''ticket_id'' = None)
   \<Longrightarrow> handle_get_prompt py name arguments = (Inl (ValueError ''Missing required argument: ticket_id''), [])"
  by (auto simp: handle_get_prompt_def)

lemma prompt_ok:
  assumes "map_of args ''ticket_id'' = Some v" and "int_of_str py v = Inr n"
  shows "handle_get_prompt py name (Some args) = (case prompt_try name n of
           Inl e \<Rightarrow> (Inl e, [''Error generating prompt: '' @ str_exn py e]) | Inr r \<Rightarrow> (Inr r, []))"
proof -
  from assms(1) have "args \<noteq> []"
    by auto
  with assms show ?thesis
    by (simp add: handle_get_prompt_def)
qed

lemma prompt_unknown_name:
  assumes "name \<noteq> ''analyze-ticket''" and "name \<noteq> ''draft-ticket-response''"
  shows "\<exists>m. fst (handle_get_prompt py name arguments) = Inl (ValueError m)"
proof (cases "\<exists>args v. arguments = Some args \<and> map_of args ''ticket_id'' = Some v")
  case False
  then have "arguments = None \<or> (\<exists>args. arguments = Some args \<and> map_of args ''ticket_id'' = None)"
    by (cases arguments) auto
  then show ?thesis
    by (simp add: prompt_missing)
next
  case True
  then obtain args v where a: "arguments = Some args" "map_of args ''ticket_id'' = Some v"
    by blast
  then have ne: "args \<noteq> []"
    by auto
  show ?thesis
  proof (cases "int_of_str py v")
    case (Inl e)
    then obtain m where "e = ValueError m"
      using int_of_str_raises_ValueError by blast
    with Inl a ne show ?thesis
      by (simp add: handle_get_prompt_def)
  next
    case (Inr n)
    with a assms show ?thesis
      by (simp add: prompt_ok prompt_try_def)
  qed
qed

lemma prompt_analyze:
  assumes "map_of args ''ticket_id'' = Some v" and "int_of_str py v = Inr n"
  shows "\<exists>r m. handle_get_prompt py ''analyze-ticket'' (Some args) = (Inr r, []) \<and> gp_messages r = [m]
           \<and> pm_role m = ''user''
           \<and> tc_text (pm_content m) = py_strip (format_ticket_id TICKET_ANALYSIS_TEMPLATE n)
           \<and> tc_text (pm_content m) = analysis_prompt n"
  using assms by (simp add: prompt_ok prompt_try_def TextContent_def analysis_text)

lemma prompt_draft:
  assumes "map_of args ''ticket_id'' = Some v" and "int_of_str py v = Inr n"
  shows "\<exists>r m. handle_get_prompt py ''draft-ticket-response'' (Some args) = (Inr r, []) \<and> gp_messages r = [m]
           \<and> pm_role m = ''user''
           \<and> tc_text (pm_content m) = py_strip (format_ticket_id COMMENT_DRAFT_TEMPLATE n)
           \<and> tc_text (pm_content m) = draft_prompt n"
  using assms by (simp add: prompt_ok prompt_try_def TextContent_def draft_text)

text \<open>
  Claim C8. \<^verbatim>\<open>handle_get_prompt\<close> raises a \<^verbatim>\<open>ValueError\<close> when the arguments are absent
  or have no \<^verbatim>\<open>ticket_id\<close>, and raises (a \<^verbatim>\<open>ValueError\<close> again) for every prompt name
  other than \<^verbatim>\<open>analyze-ticket\<close> and \<^verbatim>\<open>draft-ticket-response\<close>. For these two names and a
  \<^verbatim>\<open>ticket_id\<close> that \<^verbatim>\<open>int()\<close> accepts, the result holds exactly one message, of role
  \<^verbatim>\<open>user\<close>, whose text is the template with the ticket number substituted and the
  surrounding white space stripped; written out, it is \<open>analysis_prompt n\<close> or
  \<open>draft_prompt n\<close>.
\<close>

theorem handle_get_prompt_contract:
  "(arguments = None \<or> (\<exists>args. arguments = Some args \<and> map_of args ''ticket_id'' = None)
      \<longrightarrow> handle_get_prompt py name arguments
            = (Inl (ValueError ''Missing required argument: ticket_id''), []))
   \<and> (name \<noteq> ''analyze-ticket'' \<and> name \<noteq> ''draft-ticket-response''
      \<longrightarrow> (\<exists>m. fst (handle_get_prompt py name arguments) = Inl (ValueError m)))
   \<and> (map_of args ''ticket_id'' = Some v \<and> int_of_str py v = Inr n
      \<longrightarrow> (\<exists>r m. handle_get_prompt py ''analyze-ticket'' (Some args) = (Inr r, [])
             \<and> gp_messages r = [m] \<and> pm_role m = ''user''
             \<and> tc_text (pm_content m) = py_strip (format_ticket_id TICKET_ANALYSIS_TEMPLATE n)
             \<and> tc_text (pm_content m) = analysis_prompt n)
        \<and> (\<exists>r m. handle_get_prompt py ''draft-ticket-response'' (Some args) = (Inr r, [])
             \<and> gp_messages r = [m] \<and> pm_role m = ''user''
             \<and> tc_text (pm_content m) = py_strip (format_ticket_id COMMENT_DRAFT_TEMPLATE n)
             \<and> tc_text (pm_content m) = draft_prompt n))"
  using prompt_missing [of arguments py name] prompt_unknown_name [of name py arguments]
    prompt_analyze [of args v py n] prompt_draft [of args v py n]
  by blast

theorem handle_get_prompt_contract_witness:
  "\<forall>py.
     handle_get_prompt py ''analyze-ticket'' None
       = (Inl (ValueError ''Missing required argument: ticket_id''), [])
   \<and> (\<exists>m. fst (handle_get_prompt py ''summarise'' (Some [(''ticket_id'', ''42'')])) = Inl (ValueError m))
   \<and> (\<exists>r m. handle_get_prompt py ''analyze-ticket'' (Some [(''ticket_id'', ''42'')]) = (Inr r, [])
          \<and> gp_messages r = [m] \<and> pm_role m = ''user'' \<and> tc_text (pm_content m) = analysis_prompt 42)
   \<and> (\<exists>r m. handle_get_prompt py ''draft-ticket-response'' (Some [(''ticket_id'', ''42'')]) = (Inr r, [])
          \<and> gp_messages r = [m] \<and> pm_role m = ''user'' \<and> tc_text (pm_content m) = draft_prompt 42)"
proof
  fix py
  have i42: "int_of_str py ''42'' = Inr 42"
    by (simp add: int_of_str_def int_space_def is_digit_def digit_val_def)
  have m: "map_of [(''ticket_id'', ''42'')] ''ticket_id'' = Some ''42''"
    by simp
  have n: "''summarise'' \<noteq> ''analyze-ticket'' \<and> ''summarise'' \<noteq> ''draft-ticket-response''"
    by simp
  note c1 = handle_get_prompt_contract [of None py "''analyze-ticket''" "[(''ticket_id'', ''42'')]" "''42''" 42]
  note c2 = handle_get_prompt_contract
    [of "Some [(''ticket_id'', ''42'')]" py "''summarise''" "[(''ticket_id'', ''42'')]" "''42''" 42]
  from c1 have a: "handle_get_prompt py ''analyze-ticket'' None
             = (Inl (ValueError ''Missing required argument: ticket_id''), [])"
    by blast
  from c2 n have b: "\<exists>m. fst (handle_get_prompt py ''summarise'' (Some [(''ticket_id'', ''42'')])) = Inl (ValueError m)"
    by blast
  from c1 m i42 have c: "(\<exists>r m. handle_get_prompt py ''analyze-ticket'' (Some [(''ticket_id'', ''42'')]) = (Inr r, [])
          \<and> gp_messages r = [m] \<and> pm_role m = ''user'' \<and> tc_text (pm_content m) = analysis_prompt 42)
   \<and> (\<exists>r m. handle_get_prompt py ''draft-ticket-response'' (Some [(''ticket_id'', ''42'')]) = (Inr r, [])
          \<and> gp_messages r = [m] \<and> pm_role m = ''user'' \<and> tc_text (pm_content m) = draft_prompt 42)"
    by blast
  from a b c show "handle_get_prompt py ''analyze-ticket'' None
       = (Inl (ValueError ''Missing required argument: ticket_id''), [])
   \<and> (\<exists>m. fst (handle_get_prompt py ''summarise'' (Some [(''ticket_id'', ''42'')])) = Inl (ValueError m))
   \<and> (\<exists>r m. handle_get_prompt py ''analyze-ticket'' (Some [(''ticket_id'', ''42'')]) = (Inr r, [])
          \<and> gp_messages r = [m] \<and> pm_role m = ''user'' \<and> tc_text (pm_content m) = analysis_prompt 42)
   \<and> (\<exists>r m. handle_get_prompt py ''draft-ticket-response'' (Some [(''ticket_id'', ''42'')]) = (Inr r, [])
          \<and> gp_messages r = [m] \<and> pm_role m = ''user'' \<and> tc_text (pm_content m) = draft_prompt 42)"
    by blast
qed

text \<open>
  Claim C10. When the \<^verbatim>\<open>ticket_id\<close> argument is not a literal that \<^verbatim>\<open>int()\<close> accepts,
  the conversion raises before the \<^verbatim>\<open>try\<close> block: the exception of \<^verbatim>\<open>int()\<close> itself
  leaves the handler, whatever the prompt name is, and nothing is given to
  \<^verbatim>\<open>logger.error\<close>, which only the \<^verbatim>\<open>except\<close> clause of the block calls.
\<close>

theorem int_conversion_raises_outside_try:
  "map_of args ''ticket_id'' = Some v \<Longrightarrow> int_of_str py v = Inl e
   \<Longrightarrow> handle_get_prompt py name (Some args) = (Inl e, [])"
  by (auto simp: handle_get_prompt_def)

theorem int_conversion_raises_outside_try_witness:
  "\<forall>py. handle_get_prompt py ''analyze-ticket'' (Some [(''ticket_id'', ''abc'')])
          = (Inl (invalid_literal py ''abc''), [])"
proof
  fix py
  have "int_of_str py ''abc'' = Inl (invalid_literal py ''abc'')"
    by (simp add: int_of_str_def int_space_def is_digit_def)
  then show "handle_get_prompt py ''analyze-ticket'' (Some [(''ticket_id'', ''abc'')])
          = (Inl (invalid_literal py ''abc''), [])"
    using int_conversion_raises_outside_try [of "[(''ticket_id'', ''abc'')]" "''abc''" py _ "''analyze-ticket''"]
    by simp
qed

text \<open>
  For comparison, an exception raised inside the \<^verbatim>\<open>try\<close> block is logged before it is
  raised again.
\<close>

lemma exception_inside_try_is_logged:
  "map_of args ''ticket_id'' = Some v \<Longrightarrow> int_of_str py v = Inr n \<Longrightarrow> prompt_try name n = Inl e
   \<Longrightarrow> handle_get_prompt py name (Some args) = (Inl e, [''Error generating prompt: '' @ str_exn py e])"
  by (simp add: prompt_ok)

section \<open>Properties of the tool dispatcher\<close>

lemma is_error_result_Error: "is_error_result [TextContent (''Error: '' @ m)]"
  by (simp add: is_error_result_def TextContent_def)

lemma handle_call_tool_raised:
  "handle_call_tool_try py zc name arguments s w = (Inl e, s', w')
   \<Longrightarrow> handle_call_tool py zc name arguments s w
         = (Inr [TextContent (''Error: '' @ str_exn py e)], s', w')"
  by (simp add: handle_call_tool_def)

lemma handle_call_tool_returned:
  "handle_call_tool_try py zc name arguments s w = (Inr content, s', w')
   \<Longrightarrow> handle_call_tool py zc name arguments s w = (Inr content, s', w')"
  by (simp add: handle_call_tool_def)

lemma try_client_raises:
  "tool_call py name arguments = Inr call \<Longrightarrow> zc call w = (Inl e, w')
   \<Longrightarrow> handle_call_tool_try py zc name arguments s w = (Inl e, s, w')"
  by (simp add: handle_call_tool_try_def)

lemma try_rejected:
  "tool_call py name arguments = Inl e
   \<Longrightarrow> handle_call_tool_try py zc name arguments s w = (Inl e, s, w)"
  by (simp add: handle_call_tool_try_def)

lemma try_returned_only_after_call:
  "handle_call_tool_try py zc name arguments s w = (Inr content, s', w')
   \<Longrightarrow> \<exists>call result. tool_call py name arguments = Inr call \<and> zc call w = (Inr result, w')"
  by (auto simp: handle_call_tool_try_def split: sum.splits prod.splits)



text \<open>
  Claim C1. Whatever the tool name and the arguments are, \<^verbatim>\<open>handle_call_tool\<close> never
  raises. When the call it delegates to the client raises \<open>e\<close>, it returns the one text
  content \<^verbatim>\<open>Error: \<close> followed by \<^verbatim>\<open>str(e)\<close>; the same holds for an exception raised
  before the client is called. A result that is not of this shape is returned only when
  a call was delegated and the client returned from it.
\<close>

theorem handle_call_tool_reports_errors:
  "(tool_call py name arguments = Inr call \<and> zc call w = (Inl e, w')
      \<longrightarrow> handle_call_tool py zc name arguments s w
            = (Inr [TextContent (''Error: '' @ str_exn py e)], s, w'))
   \<and> (tool_call py name arguments = Inl e
      \<longrightarrow> handle_call_tool py zc name arguments s w
            = (Inr [TextContent (''Error: '' @ str_exn py e)], s, w))
   \<and> (\<exists>content. fst (handle_call_tool py zc name arguments s w) = Inr content)
   \<and> (fst (handle_call_tool py zc name arguments s w) = Inr content \<and> \<not> is_error_result content
      \<longrightarrow> (\<exists>call result. tool_call py name arguments = Inr call \<and> fst (zc call w) = Inr result))"
proof (intro conjI impI)
  assume "tool_call py name arguments = Inr call \<and> zc call w = (Inl e, w')"
  then show "handle_call_tool py zc name arguments s w
               = (Inr [TextContent (''Error: '' @ str_exn py e)], s, w')"
    by (simp add: try_client_raises handle_call_tool_raised)
next
  assume "tool_call py name arguments = Inl e"
  then show "handle_call_tool py zc name arguments s w
               = (Inr [TextContent (''Error: '' @ str_exn py e)], s, w)"
    by (simp add: try_rejected handle_call_tool_raised)
next
  show "\<exists>content. fst (handle_call_tool py zc name arguments s w) = Inr content"
    by (cases "handle_call_tool_try py zc name arguments s w")
       (auto simp: handle_call_tool_def split: sum.splits)
next
  assume a: "fst (handle_call_tool py zc name arguments s w) = Inr content \<and> \<not> is_error_result content"
  obtain r s' w' where t: "handle_call_tool_try py zc name arguments s w = (r, s', w')"
    by (cases "handle_call_tool_try py zc name arguments s w")
  show "\<exists>call result. tool_call py name arguments = Inr call \<and> fst (zc call w) = Inr result"
  proof (cases r)
    case (Inl e')
    with t have "fst (handle_call_tool py zc name arguments s w)
                   = Inr [TextContent (''Error: '' @ str_exn py e')]"
      by (simp add: handle_call_tool_raised)
    with a have "content = [TextContent (''Error: '' @ str_exn py e')]"
      by simp
    then have "is_error_result content"
      by (simp only: is_error_result_Error)
    with a show ?thesis
      by blast
  next
    case (Inr c)
    with t have "handle_call_tool_try py zc name arguments s w = (Inr c, s', w')"
      by simp
    from try_returned_only_after_call [OF this]
    obtain call result where "tool_call py name arguments = Inr call" "zc call w = (Inr result, w')"
      by blast
    then show ?thesis
      by auto
  qed
qed

theorem handle_call_tool_reports_errors_witness:
  "\<forall>py. handle_call_tool py failing_client ''get_ticket'' (Some [(''ticket_id'', JInt 7)]) initial_state ()
           = (Inr [TextContent ''Error: Failed to get ticket 7: not found''], initial_state, ())
       \<and> handle_call_tool py failing_client ''get_ticket'' None initial_state ()
           = (Inr [TextContent ''Error: Missing arguments''], initial_state, ())
       \<and> (\<exists>call result. tool_call py ''get_ticket'' (Some [(''ticket_id'', JInt 7)]) = Inr call
             \<and> fst (echo_client call ()) = Inr result)"
proof
  fix py
  have call: "tool_call py ''get_ticket'' (Some [(''ticket_id'', JInt 7)]) = Inr (Get_ticket (JInt 7))"
    by (simp add: tool_call_def require_arguments_def dict_getitem_def)
  have rej: "tool_call py ''get_ticket'' None = Inl (ValueError ''Missing arguments'')"
    by (simp add: tool_call_def require_arguments_def)
  have fails: "failing_client (Get_ticket (JInt 7)) () = (Inl (Exception ''Failed to get ticket 7: not found''), ())"
    by (simp add: failing_client_def)
  have ok: "fst (handle_call_tool py echo_client ''get_ticket'' (Some [(''ticket_id'', JInt 7)]) initial_state ())
              = Inr [TextContent (py_dumps py (JDict [(''id'', JInt 7)]) None)]"
    by (simp add: handle_call_tool_def handle_call_tool_try_def call echo_client_def tool_render_def)
  have ne: "\<not> is_error_result [TextContent (py_dumps py (JDict [(''id'', JInt 7)]) None)]
            \<or> is_error_result [TextContent (py_dumps py (JDict [(''id'', JInt 7)]) None)]"
    by blast
  note c1 = handle_call_tool_reports_errors
    [of py "''get_ticket''" "Some [(''ticket_id'', JInt 7)]" "Get_ticket (JInt 7)" failing_client "()"
        "Exception ''Failed to get ticket 7: not found''" "()" initial_state]
  note c2 = handle_call_tool_reports_errors
    [of py "''get_ticket''" None _ failing_client "()" "ValueError ''Missing arguments''" _ initial_state]
  have a: "handle_call_tool py failing_client ''get_ticket'' (Some [(''ticket_id'', JInt 7)]) initial_state ()
           = (Inr [TextContent ''Error: Failed to get ticket 7: not found''], initial_state, ())"
    using c1 call fails by (simp add: str_exn_def)
  have b: "handle_call_tool py failing_client ''get_ticket'' None initial_state ()
           = (Inr [TextContent ''Error: Missing arguments''], initial_state, ())"
    using c2 rej by (simp add: str_exn_def)
  have c: "\<exists>call result. tool_call py ''get_ticket'' (Some [(''ticket_id'', JInt 7)]) = Inr call
             \<and> fst (echo_client call ()) = Inr result"
    using call by (simp add: echo_client_def)
  from a b c show "handle_call_tool py failing_client ''get_ticket'' (Some [(''ticket_id'', JInt 7)]) initial_state ()
           = (Inr [TextContent ''Error: Failed to get ticket 7: not found''], initial_state, ())
       \<and> handle_call_tool py failing_client ''get_ticket'' None initial_state ()
           = (Inr [TextContent ''Error: Missing arguments''], initial_state, ())
       \<and> (\<exists>call result. tool_call py ''get_ticket'' (Some [(''ticket_id'', JInt 7)]) = Inr call
             \<and> fst (echo_client call ()) = Inr result)"
    by blast
qed



text \<open>
  Claim C2 fails for \<^verbatim>\<open>create_ticket\<close>, whose schema requires \<^verbatim>\<open>subject\<close> and
  \<^verbatim>\<open>description\<close>: the branch reads both with \<^verbatim>\<open>arguments.get\<close>, so a call without
  \<^verbatim>\<open>subject\<close> is forwarded to the client with \<^verbatim>\<open>subject=None\<close>, and the client's answer
  is reported as a created ticket.
\<close>

theorem create_ticket_forwarded_without_subject:
  "tool_call py ''create_ticket'' (Some [(''description'', JStr ''x'')])
     = Inr (Create_ticket JNull (JStr ''x'') JNull JNull JNull JNull JNull JNull)
   \<and> handle_call_tool py zc ''create_ticket'' (Some [(''description'', JStr ''x'')]) s w
     = (case zc (Create_ticket JNull (JStr ''x'') JNull JNull JNull JNull JNull JNull) w of
          (Inl e, w') \<Rightarrow> (Inr [TextContent (''Error: '' @ str_exn py e)], s, w')
        | (Inr created, w') \<Rightarrow>
            (Inr [TextContent (py_dumps py
                    (JDict [(''message'', JStr ''Ticket created successfully''), (''ticket'', created)])
                    (Some 2))], s, w'))"
  by (simp add: handle_call_tool_def handle_call_tool_try_def tool_call_def tool_render_def
        require_arguments_def dict_get_def split: prod.splits sum.splits)

lemma dict_getitem_missing: "map_of d k = None \<Longrightarrow> dict_getitem d k = Inl (KeyError (JStr k))"
  by (simp add: dict_getitem_def)

lemma dict_get_missing: "map_of d k = None \<Longrightarrow> dict_get d k dflt = dflt"
  by (simp add: dict_get_def)

lemma tool_call_get_ticket:
  "tool_call py ''get_ticket'' arguments =
     (case require_arguments arguments of Inl e \<Rightarrow> Inl e | Inr args \<Rightarrow>
        (case dict_getitem args ''ticket_id'' of Inl e \<Rightarrow> Inl e | Inr ticket_id \<Rightarrow>
           Inr (Get_ticket ticket_id)))"
  by (simp add: tool_call_def Let_def)

lemma tool_call_create_ticket:
  "tool_call py ''create_ticket'' arguments =
     (case require_arguments arguments of Inl e \<Rightarrow> Inl e | Inr args \<Rightarrow>
        Inr (Create_ticket (dict_get args ''subject'' JNull) (dict_get args ''description'' JNull)
                  (dict_get args ''requester_id'' JNull) (dict_get args ''assignee_id'' JNull)
                  (dict_get args ''priority'' JNull) (dict_get args ''type'' JNull)
                  (dict_get args ''tags'' JNull) (dict_get args ''custom_fields'' JNull)))"
  by (simp add: tool_call_def Let_def)

lemma tool_call_get_ticket_comments:
  "tool_call py ''get_ticket_comments'' arguments =
     (case require_arguments arguments of Inl e \<Rightarrow> Inl e | Inr args \<Rightarrow>
        (case dict_getitem args ''ticket_id'' of Inl e \<Rightarrow> Inl e | Inr ticket_id \<Rightarrow>
           Inr (Get_ticket_comments ticket_id)))"
  by (simp add: tool_call_def Let_def)

lemma tool_call_create_ticket_comment:
  "tool_call py ''create_ticket_comment'' arguments =
     (case require_arguments arguments of Inl e \<Rightarrow> Inl e | Inr args \<Rightarrow>
        (case dict_getitem args ''ticket_id'' of Inl e \<Rightarrow> Inl e | Inr ticket_id \<Rightarrow>
           (case dict_getitem args ''comment'' of Inl e \<Rightarrow> Inl e | Inr comment \<Rightarrow>
             Inr (Post_comment ticket_id comment (dict_get args ''public'' (JBool True))))))"
  by (cases "require_arguments arguments") (simp_all add: tool_call_def Let_def)

lemma tool_call_update_ticket:
  "tool_call py ''update_ticket'' arguments =
     (case require_arguments arguments of Inl e \<Rightarrow> Inl e | Inr args \<Rightarrow>
        (if dict_get args ''ticket_id'' JNull = JNull then Inl (ValueError ''ticket_id is required'')
          else
            (case py_int py (dict_get args ''ticket_id'' JNull) of Inl e \<Rightarrow> Inl e | Inr n \<Rightarrow>
               if ''self'' \<in> set (map fst (filter (\<lambda>(k, v). k \<noteq> ''ticket_id'') args))
               then Inl (TypeError (''ZendeskClient.update_ticket() got multiple values for argument ''
                                    @ [CHR 0x27] @ ''self'' @ [CHR 0x27]))
               else Inr (Update_ticket n (filter (\<lambda>(k, v). k \<noteq> ''ticket_id'') args)))))"
  by (cases "require_arguments arguments") (simp_all add: tool_call_def Let_def)

lemma tool_call_get_user:
  "tool_call py ''get_user'' arguments =
     (case require_arguments arguments of Inl e \<Rightarrow> Inl e | Inr args \<Rightarrow>
        (case dict_getitem args ''user_id'' of Inl e \<Rightarrow> Inl e | Inr user_id \<Rightarrow>
           Inr (Get_user user_id)))"
  by (simp add: tool_call_def Let_def)

lemma tool_call_search_users_by_email:
  "tool_call py ''search_users_by_email'' arguments =
     (case require_arguments arguments of Inl e \<Rightarrow> Inl e | Inr args \<Rightarrow>
        (case dict_getitem args ''email'' of Inl e \<Rightarrow> Inl e | Inr email \<Rightarrow>
           Inr (Search_users_by_email email)))"
  by (simp add: tool_call_def Let_def)

lemma tool_call_create_user:
  "tool_call py ''create_user'' arguments =
     (case require_arguments arguments of Inl e \<Rightarrow> Inl e | Inr args \<Rightarrow>
        (case dict_getitem args ''email'' of Inl e \<Rightarrow> Inl e | Inr email \<Rightarrow>
          (case dict_getitem args ''name'' of Inl e \<Rightarrow> Inl e | Inr user_name \<Rightarrow>
            Inr (Create_user email user_name (dict_get args ''role'' JNull)
                   (dict_get args ''phone'' JNull) (dict_get args ''organization_id'' JNull)))))"
  by (simp add: tool_call_def Let_def)

lemma tool_call_get_user_tickets:
  "tool_call py ''get_user_tickets'' arguments =
     (case require_arguments arguments of Inl e \<Rightarrow> Inl e | Inr args \<Rightarrow>
        (case dict_getitem args ''user_id'' of Inl e \<Rightarrow> Inl e | Inr user_id \<Rightarrow>
           Inr (Get_user_tickets user_id (dict_get args ''status'' JNull))))"
  by (simp add: tool_call_def Let_def)

lemma tool_call_get_tickets:
  "tool_call py ''get_tickets'' arguments =
     Inr (Get_tickets (get_or arguments ''page'' (JInt 1)) (get_or arguments ''per_page'' (JInt 25))
            (get_or arguments ''sort_by'' (JStr ''created_at''))
            (get_or arguments ''sort_order'' (JStr ''desc'')))"
  by (simp add: tool_call_def)

lemma tool_call_unknown:
  assumes "name \<notin> set (map tool_name handle_list_tools)"
  shows "tool_call py name arguments = Inl (ValueError (''Unknown tool: '' @ name))"
proof -
  from assms have n: "name \<noteq> ''get_ticket''" "name \<noteq> ''create_ticket''" "name \<noteq> ''get_tickets''"
    "name \<noteq> ''get_ticket_comments''" "name \<noteq> ''create_ticket_comment''" "name \<noteq> ''update_ticket''"
    "name \<noteq> ''get_user''" "name \<noteq> ''search_users_by_email''" "name \<noteq> ''create_user''"
    "name \<noteq> ''get_user_tickets''"
    by (simp_all add: handle_list_tools_def)
  show ?thesis
    unfolding tool_call_def by (simp only: n if_False)
qed


lemma require_arguments_None: "require_arguments None = Inl (ValueError ''Missing arguments'')"
  by (simp add: require_arguments_def)

lemma require_arguments_Some:
  "require_arguments (Some args) = (if args = [] then Inl (ValueError ''Missing arguments'') else Inr args)"
  by (simp add: require_arguments_def)

lemma rejected_get_ticket:
  "arguments = None \<or> (\<exists>args. arguments = Some args \<and> map_of args ''ticket_id'' = None)
   \<Longrightarrow> \<exists>e. tool_call py ''get_ticket'' arguments = Inl e"
  by (auto simp: tool_call_get_ticket require_arguments_None require_arguments_Some dict_getitem_missing)

lemma rejected_get_ticket_comments:
  "arguments = None \<or> (\<exists>args. arguments = Some args \<and> map_of args ''ticket_id'' = None)
   \<Longrightarrow> \<exists>e. tool_call py ''get_ticket_comments'' arguments = Inl e"
  by (auto simp: tool_call_get_ticket_comments require_arguments_None require_arguments_Some
        dict_getitem_missing)

lemma rejected_create_ticket_comment:
  "arguments = None \<or> (\<exists>args. arguments = Some args
      \<and> (map_of args ''ticket_id'' = None \<or> map_of args ''comment'' = None))
   \<Longrightarrow> \<exists>e. tool_call py ''create_ticket_comment'' arguments = Inl e"
  by (auto simp: tool_call_create_ticket_comment require_arguments_None require_arguments_Some
        dict_getitem_missing split: sum.splits if_splits)

lemma rejected_update_ticket:
  "arguments = None \<or> (\<exists>args. arguments = Some args \<and> map_of args ''ticket_id'' = None)
   \<Longrightarrow> \<exists>e. tool_call py ''update_ticket'' arguments = Inl e"
  by (auto simp: tool_call_update_ticket require_arguments_None require_arguments_Some
        dict_get_missing)

lemma rejected_get_user:
  "arguments = None \<or> (\<exists>args. arguments = Some args \<and> map_of args ''user_id'' = None)
   \<Longrightarrow> \<exists>e. tool_call py ''get_user'' arguments = Inl e"
  by (auto simp: tool_call_get_user require_arguments_None require_arguments_Some dict_getitem_missing)

lemma rejected_search_users_by_email:
  "arguments = None \<or> (\<exists>args. arguments = Some args \<and> map_of args ''email'' = None)
   \<Longrightarrow> \<exists>e. tool_call py ''search_users_by_email'' arguments = Inl e"
  by (auto simp: tool_call_search_users_by_email require_arguments_None require_arguments_Some
        dict_getitem_missing)

lemma rejected_create_user:
  "arguments = None \<or> (\<exists>args. arguments = Some args
      \<and> (map_of args ''email'' = None \<or> map_of args ''name'' = None))
   \<Longrightarrow> \<exists>e. tool_call py ''create_user'' arguments = Inl e"
  by (auto simp: tool_call_create_user require_arguments_None require_arguments_Some
        dict_getitem_missing split: sum.splits if_splits)

lemma rejected_get_user_tickets:
  "arguments = None \<or> (\<exists>args. arguments = Some args \<and> map_of args ''user_id'' = None)
   \<Longrightarrow> \<exists>e. tool_call py ''get_user_tickets'' arguments = Inl e"
  by (auto simp: tool_call_get_user_tickets require_arguments_None require_arguments_Some
        dict_getitem_missing)


lemma tool_cases:
  assumes "t \<in> set handle_list_tools"
  shows "tool_name t = ''get_ticket'' \<and> tool_required t = [''ticket_id'']
    \<or> tool_name t = ''create_ticket'' \<and> tool_required t = [''subject'', ''description'']
    \<or> tool_name t = ''get_tickets'' \<and> tool_required t = []
    \<or> tool_name t = ''get_ticket_comments'' \<and> tool_required t = [''ticket_id'']
    \<or> tool_name t = ''create_ticket_comment'' \<and> tool_required t = [''ticket_id'', ''comment'']
    \<or> tool_name t = ''update_ticket'' \<and> tool_required t = [''ticket_id'']
    \<or> tool_name t = ''get_user'' \<and> tool_required t = [''user_id'']
    \<or> tool_name t = ''search_users_by_email'' \<and> tool_required t = [''email'']
    \<or> tool_name t = ''create_user'' \<and> tool_required t = [''email'', ''name'']
    \<or> tool_name t = ''get_user_tickets'' \<and> tool_required t = [''user_id'']"
proof -
  from assms have "t = handle_list_tools ! 0 \<or> t = handle_list_tools ! 1 \<or> t = handle_list_tools ! 2
    \<or> t = handle_list_tools ! 3 \<or> t = handle_list_tools ! 4 \<or> t = handle_list_tools ! 5
    \<or> t = handle_list_tools ! 6 \<or> t = handle_list_tools ! 7 \<or> t = handle_list_tools ! 8
    \<or> t = handle_list_tools ! 9"
    by (simp add: handle_list_tools_def)
  then show ?thesis
    by (elim disjE) (simp_all add: handle_list_tools_def)
qed

text \<open>
  Every other tool of the catalog does reject a call in which a required argument is
  absent, before the client is called.
\<close>

lemma required_arguments_enforced_elsewhere:
  assumes "t \<in> set handle_list_tools" and nc: "tool_name t \<noteq> ''create_ticket''"
    and kr: "k \<in> set (tool_required t)"
    and a: "arguments = None \<or> (\<exists>args. arguments = Some args \<and> map_of args k = None)"
  shows "\<exists>e. tool_call py (tool_name t) arguments = Inl e"
  using tool_cases [OF assms(1)]
proof (elim disjE conjE)
  assume n: "tool_name t = ''get_ticket''" and r: "tool_required t = [''ticket_id'']"
  from kr have k: "k = ''ticket_id''"
    unfolding r by simp
  from a show ?thesis
    unfolding n k by (rule rejected_get_ticket)
next
  assume n: "tool_name t = ''create_ticket''" and r: "tool_required t = [''subject'', ''description'']"
  from nc n show ?thesis
    by (rule notE)
next
  assume n: "tool_name t = ''get_tickets''" and r: "tool_required t = []"
  from kr show ?thesis
    unfolding r by simp
next
  assume n: "tool_name t = ''get_ticket_comments''" and r: "tool_required t = [''ticket_id'']"
  from kr have k: "k = ''ticket_id''"
    unfolding r by simp
  from a show ?thesis
    unfolding n k by (rule rejected_get_ticket_comments)
next
  assume n: "tool_name t = ''create_ticket_comment''" and r: "tool_required t = [''ticket_id'', ''comment'']"
  from kr have "k = ''ticket_id'' \<or> k = ''comment''"
    unfolding r by simp
  with a have "arguments = None \<or> (\<exists>args. arguments = Some args
      \<and> (map_of args ''ticket_id'' = None \<or> map_of args ''comment'' = None))"
    by (elim disjE exE conjE) (simp_all only: simp_thms, blast+)
  then show ?thesis
    unfolding n by (rule rejected_create_ticket_comment)
next
  assume n: "tool_name t = ''update_ticket''" and r: "tool_required t = [''ticket_id'']"
  from kr have k: "k = ''ticket_id''"
    unfolding r by simp
  from a show ?thesis
    unfolding n k by (rule rejected_update_ticket)
next
  assume n: "tool_name t = ''get_user''" and r: "tool_required t = [''user_id'']"
  from kr have k: "k = ''user_id''"
    unfolding r by simp
  from a show ?thesis
    unfolding n k by (rule rejected_get_user)
next
  assume n: "tool_name t = ''search_users_by_email''" and r: "tool_required t = [''email'']"
  from kr have k: "k = ''email''"
    unfolding r by simp
  from a show ?thesis
    unfolding n k by (rule rejected_search_users_by_email)
next
  assume n: "tool_name t = ''create_user''" and r: "tool_required t = [''email'', ''name'']"
  from kr have "k = ''email'' \<or> k = ''name''"
    unfolding r by simp
  with a have "arguments = None \<or> (\<exists>args. arguments = Some args
      \<and> (map_of args ''email'' = None \<or> map_of args ''name'' = None))"
    by (elim disjE exE conjE) (simp_all only: simp_thms, blast+)
  then show ?thesis
    unfolding n by (rule rejected_create_user)
next
  assume n: "tool_name t = ''get_user_tickets''" and r: "tool_required t = [''user_id'']"
  from kr have k: "k = ''user_id''"
    unfolding r by simp
  from a show ?thesis
    unfolding n k by (rule rejected_get_user_tickets)
qed

section \<open>Properties of update_ticket\<close>

lemma map_of_dict_set: "map_of (dict_set d k v) k' = (if k' = k then Some v else map_of d k')"
  by (simp add: dict_set_def update_conv')

lemma set_fields_skips_None:
  "(\<forall>v. (k, v) \<in> set flds \<longrightarrow> v = JNull) \<Longrightarrow> map_of (set_fields flds ticket) k = map_of ticket k"
proof (induction flds arbitrary: ticket)
  case Nil
  then show ?case by simp
next
  case (Cons p flds)
  obtain key v where p: "p = (key, v)"
    by (cases p)
  from Cons.prems have rest: "\<forall>v. (k, v) \<in> set flds \<longrightarrow> v = JNull"
    by simp
  show ?case
  proof (cases "v = JNull")
    case True
    with p Cons.IH [OF rest] show ?thesis
      by simp
  next
    case False
    with p Cons.prems have "key \<noteq> k"
      by auto
    with p False Cons.IH [OF rest, of "dict_set ticket key v"] show ?thesis
      by (simp add: map_of_dict_set)
  qed
qed

lemma set_fields_filter:
  "set_fields flds ticket = set_fields (filter (\<lambda>(k, v). v \<noteq> JNull) flds) ticket"
  by (induction flds ticket rule: set_fields.induct) simp_all

lemma set_fields_never_null:
  "map_of (set_fields flds ticket) k = Some JNull \<Longrightarrow> map_of ticket k = Some JNull"
proof (induction flds ticket rule: set_fields.induct)
  case (1 ticket)
  then show ?case by simp
next
  case (2 key v flds ticket)
  then show ?case
    by (cases "v = JNull") (auto simp: map_of_dict_set split: if_splits)
qed

lemma set_fields_writes:
  "distinct (map fst flds) \<Longrightarrow> (k, v) \<in> set flds \<Longrightarrow> v \<noteq> JNull
   \<Longrightarrow> map_of (set_fields flds ticket) k = Some v"
proof (induction flds arbitrary: ticket)
  case Nil
  then show ?case by simp
next
  case (Cons p flds)
  obtain key u where p: "p = (key, u)"
    by (cases p)
  show ?case
  proof (cases "(k, v) = p")
    case True
    with p Cons.prems have "\<forall>x. (k, x) \<in> set flds \<longrightarrow> x = JNull"
      by (auto simp: image_iff)
    from set_fields_skips_None [OF this] True p Cons.prems(3) show ?thesis
      by (simp add: map_of_dict_set)
  next
    case False
    with Cons.prems have "(k, v) \<in> set flds" and "distinct (map fst flds)"
      by auto
    with Cons.IH Cons.prems(3) have "map_of (set_fields flds t) k = Some v" for t
      by blast
    with p show ?thesis
      by (cases "u = JNull") simp_all
  qed
qed

lemma update_ticket_try_sends:
  "tickets_get r ticket_id w = (Inr ticket, w1)
   \<Longrightarrow> update_ticket_try py r ticket_id flds w =
         (case tickets_update r (set_fields flds ticket) w1 of
            (Inl e, w2) \<Rightarrow> (Inl e, w2)
          | (Inr audit, w2) \<Rightarrow>
              (case tickets_get r ticket_id w2 of
                 (Inl e, w3) \<Rightarrow> (Inl e, w3)
               | (Inr refreshed, w3) \<Rightarrow> (ticket_record py refreshed, w3)))"
  by (simp add: update_ticket_try_def)

lemma update_ticket_try_filter:
  "update_ticket_try py r ticket_id flds w
     = update_ticket_try py r ticket_id (filter (\<lambda>(k, v). v \<noteq> JNull) flds) w"
proof -
  obtain res w1 where g: "tickets_get r ticket_id w = (res, w1)"
    by (cases "tickets_get r ticket_id w")
  show ?thesis
  proof (cases res)
    case (Inl e)
    with g show ?thesis
      by (simp add: update_ticket_try_def)
  next
    case (Inr ticket)
    with g have "tickets_get r ticket_id w = (Inr ticket, w1)"
      by simp
    then show ?thesis
      by (simp only: update_ticket_try_sends set_fields_filter [of flds ticket])
  qed
qed

lemma update_ticket_filter:
  "update_ticket py r ticket_id flds w
     = update_ticket py r ticket_id (filter (\<lambda>(k, v). v \<noteq> JNull) flds) w"
  by (simp only: update_ticket_def update_ticket_try_filter [of py r ticket_id flds w])

text \<open>
  Claim C9. \<^verbatim>\<open>update_ticket\<close> skips every field whose value is \<^verbatim>\<open>None\<close>. The whole
  operation, with everything it sends to the remote side, is the one for the fields
  that are not \<^verbatim>\<open>None\<close>; the object given to \<^verbatim>\<open>tickets.update\<close> is the loaded ticket
  after \<open>set_fields\<close>. An attribute for which only \<^verbatim>\<open>None\<close> was given, or nothing, keeps
  what the loaded ticket had; no attribute becomes \<^verbatim>\<open>None\<close> that was not \<^verbatim>\<open>None\<close> before;
  and a field given with another value is written (the keys of \<^verbatim>\<open>fields\<close> are distinct, as
  in any dict).
\<close>

theorem update_ticket_skips_None_fields:
  "update_ticket py r ticket_id flds w
     = update_ticket py r ticket_id (filter (\<lambda>(k, v). v \<noteq> JNull) flds) w
   \<and> (tickets_get r ticket_id w = (Inr ticket, w1)
      \<longrightarrow> update_ticket_try py r ticket_id flds w =
           (case tickets_update r (set_fields flds ticket) w1 of
              (Inl e, w2) \<Rightarrow> (Inl e, w2)
            | (Inr audit, w2) \<Rightarrow>
                (case tickets_get r ticket_id w2 of
                   (Inl e, w3) \<Rightarrow> (Inl e, w3)
                 | (Inr refreshed, w3) \<Rightarrow> (ticket_record py refreshed, w3))))
   \<and> ((\<forall>v. (k, v) \<in> set flds \<longrightarrow> v = JNull)
      \<longrightarrow> map_of (set_fields flds ticket) k = map_of ticket k)
   \<and> (map_of (set_fields flds ticket) k = Some JNull \<longrightarrow> map_of ticket k = Some JNull)
   \<and> (distinct (map fst flds) \<and> (k, v) \<in> set flds \<and> v \<noteq> JNull
      \<longrightarrow> map_of (set_fields flds ticket) k = Some v)"
  using update_ticket_filter [of py r ticket_id flds w]
    update_ticket_try_sends [of r ticket_id w ticket w1 py flds]
    set_fields_skips_None [of k flds ticket] set_fields_never_null [of flds ticket k]
    set_fields_writes [of flds k v ticket]
  by blast

theorem update_ticket_skips_None_fields_witness:
  "\<forall>py. snd (update_ticket py recording_remote 7 [(''status'', JStr ''solved''), (''priority'', JNull)] [])
          = [[(''id'', JInt 7), (''status'', JStr ''solved''), (''priority'', JStr ''high'')]]
       \<and> update_ticket py recording_remote 7 [(''status'', JStr ''solved''), (''priority'', JNull)] []
          = update_ticket py recording_remote 7 [(''status'', JStr ''solved'')] []
       \<and> map_of (set_fields [(''status'', JStr ''solved''), (''priority'', JNull)]
                   [(''id'', JInt 7), (''status'', JStr ''open''), (''priority'', JStr ''high'')]) ''priority''
          = Some (JStr ''high'')
       \<and> map_of (set_fields [(''status'', JStr ''solved''), (''priority'', JNull)]
                   [(''id'', JInt 7), (''status'', JStr ''open''), (''priority'', JStr ''high'')]) ''status''
          = Some (JStr ''solved'')"
proof
  fix py
  let ?flds = "[(''status'', JStr ''solved''), (''priority'', JNull)]"
  let ?t = "[(''id'', JInt 7), (''status'', JStr ''open''), (''priority'', JStr ''high'')]"
  have g: "tickets_get recording_remote 7 [] = (Inr ?t, [])"
    by (simp add: recording_remote_def)
  note c1 = update_ticket_skips_None_fields
    [of py recording_remote 7 ?flds "[]" ?t "[]" "''priority''" "JStr ''solved''"]
  note c2 = update_ticket_skips_None_fields
    [of py recording_remote 7 ?flds "[]" ?t "[]" "''status''" "JStr ''solved''"]
  from c1 g have sent: "update_ticket_try py recording_remote 7 ?flds [] =
           (case tickets_update recording_remote (set_fields ?flds ?t) [] of
              (Inl e, w2) \<Rightarrow> (Inl e, w2)
            | (Inr audit, w2) \<Rightarrow>
                (case tickets_get recording_remote 7 w2 of
                   (Inl e, w3) \<Rightarrow> (Inl e, w3)
                 | (Inr refreshed, w3) \<Rightarrow> (ticket_record py refreshed, w3)))"
    by blast
  have a: "snd (update_ticket py recording_remote 7 ?flds []) =
             [[(''id'', JInt 7), (''status'', JStr ''solved''), (''priority'', JStr ''high'')]]"
  proof -
    let ?u = "[(''id'', JInt 7), (''status'', JStr ''solved''), (''priority'', JStr ''high'')]"
    have "update_ticket_try py recording_remote 7 ?flds [] = (ticket_record py ?t, [?u])"
      unfolding sent by (simp add: recording_remote_def dict_set_def)
    then show ?thesis
      by (cases "ticket_record py ?t") (simp_all add: update_ticket_def)
  qed
  from c1 have b: "update_ticket py recording_remote 7 ?flds []
          = update_ticket py recording_remote 7 [(''status'', JStr ''solved'')] []"
    by simp
  have "\<forall>v. (''priority'', v) \<in> set ?flds \<longrightarrow> v = JNull"
    by simp
  with c1 have c: "map_of (set_fields ?flds ?t) ''priority'' = Some (JStr ''high'')"
    by simp
  have "distinct (map fst ?flds) \<and> (''status'', JStr ''solved'') \<in> set ?flds \<and> JStr ''solved'' \<noteq> JNull"
    by simp
  with c2 have d: "map_of (set_fields ?flds ?t) ''status'' = Some (JStr ''solved'')"
    by blast
  from a b c d show "snd (update_ticket py recording_remote 7 ?flds [])
          = [[(''id'', JInt 7), (''status'', JStr ''solved''), (''priority'', JStr ''high'')]]
       \<and> update_ticket py recording_remote 7 ?flds []
          = update_ticket py recording_remote 7 [(''status'', JStr ''solved'')] []
       \<and> map_of (set_fields ?flds ?t) ''priority'' = Some (JStr ''high'')
       \<and> map_of (set_fields ?flds ?t) ''status'' = Some (JStr ''solved'')"
    by blast
qed

section \<open>Properties of get_tickets\<close>









section \<open>Properties of the knowledge-base resource\<close>

lemma kb_scheme: "url_scheme ''zendesk://knowledge-base'' = ''zendesk''"
  by (simp add: url_scheme_def)

lemma kb_path: "py_replace ''zendesk://'' [] ''zendesk://knowledge-base'' = ''knowledge-base''"
  by simp

lemma kb_cache_logger: "kb_cache (logger level msg s) = kb_cache s"
  by (simp add: logger_def)

lemma read_kb:
  "handle_read_resource py r ''zendesk://knowledge-base'' now s w =
     (case get_cached_kb py r now (kb_cache s) w of
        (Inl e, c', w') \<Rightarrow>
          (Inl e, logger ''ERROR'' (''Error fetching knowledge base: '' @ str_exn py e)
                    ((logger ''DEBUG'' (''Handling read_resource request for URI: '' @ ''zendesk://knowledge-base'') s)
                       \<lparr>kb_cache := c'\<rparr>), w')
      | (Inr kb_data, c', w') \<Rightarrow>
          (case kb_document kb_data of
             Inl e \<Rightarrow>
               (Inl e, logger ''ERROR'' (''Error fetching knowledge base: '' @ str_exn py e)
                    ((logger ''DEBUG'' (''Handling read_resource request for URI: '' @ ''zendesk://knowledge-base'') s)
                       \<lparr>kb_cache := c'\<rparr>), w')
           | Inr doc \<Rightarrow>
               (Inr (py_dumps py doc (Some 2)),
                (logger ''DEBUG'' (''Handling read_resource request for URI: '' @ ''zendesk://knowledge-base'') s)
                  \<lparr>kb_cache := c'\<rparr>, w')))"
  unfolding handle_read_resource_def Let_def kb_scheme kb_path kb_cache_logger
  by simp

lemma list_all_update:
  "list_all P al \<Longrightarrow> P (k, v) \<Longrightarrow> list_all P (AList.update k v al)"
  by (induction al) auto

lemma section_record_has_articles:
  "map_of [(''section_id'', a), (''description'', b), (''articles'', JList xs)] ''articles''
     = Some (JList xs)"
  by simp

lemma is_kb_dict_set:
  assumes "is_kb (JDict kb)"
  shows "is_kb (JDict (dict_set kb name (section_record py sec articles)))"
proof -
  from assms have d: "distinct (map fst kb)" and a: "list_all (\<lambda>(name, sec). case sec of JDict f \<Rightarrow> (case map_of f ''articles'' of Some (JList as) \<Rightarrow> True | _ \<Rightarrow> False) | _ \<Rightarrow> False) kb"
    by (simp_all add: is_kb_def)
  have "(\<lambda>(name, sec). case sec of JDict f \<Rightarrow> (case map_of f ''articles'' of Some (JList as) \<Rightarrow> True | _ \<Rightarrow> False) | _ \<Rightarrow> False) (name, section_record py sec articles)"
    unfolding section_record_def by (simp only: prod.case json.case section_record_has_articles option.case)
  from list_all_update [OF a this] distinct_update [OF d] show ?thesis
    by (simp add: is_kb_def dict_set_def)
qed

lemma kb_sections_is_kb:
  "kb_sections py r secs kb w = (Inr kb', w') \<Longrightarrow> is_kb (JDict kb) \<Longrightarrow> is_kb (JDict kb')"
proof (induction secs arbitrary: kb w)
  case Nil
  then show ?case by simp
next
  case (Cons sec rest)
  obtain res w1 where a: "sections_articles r (sec_id sec) w = (res, w1)"
    by (cases "sections_articles r (sec_id sec) w")
  show ?case
  proof (cases res)
    case (Inl e)
    with a Cons.prems show ?thesis by simp
  next
    case (Inr articles)
    with a Cons.prems have
      "kb_sections py r rest (dict_set kb (sec_name sec) (section_record py sec articles)) w1 = (Inr kb', w')"
      by simp
    from Cons.IH [OF this is_kb_dict_set [OF Cons.prems(2)]] show ?thesis .
  qed
qed

lemma get_all_articles_is_kb:
  assumes "get_all_articles py r w = (Inr v, w')"
  shows "is_kb v"
proof -
  obtain res w1 where a: "help_center_sections r w = (res, w1)"
    by (cases "help_center_sections r w")
  show ?thesis
  proof (cases res)
    case (Inl e)
    with a assms show ?thesis by (simp add: get_all_articles_def)
  next
    case (Inr sections)
    obtain res2 w2 where b: "kb_sections py r sections [] w1 = (res2, w2)"
      by (cases "kb_sections py r sections [] w1")
    show ?thesis
    proof (cases res2)
      case (Inl e)
      with a b Inr assms show ?thesis by (simp add: get_all_articles_def)
    next
      case kb: (Inr kb)
      with a b Inr assms have v: "v = JDict kb"
        by (simp add: get_all_articles_def)
      have "is_kb (JDict [])"
        by (simp add: is_kb_def)
      from kb_sections_is_kb [OF b [unfolded kb] this] v show ?thesis
        by simp
    qed
  qed
qed

lemma sum_articles_sections:
  "list_all (\<lambda>(name, sec). case sec of JDict f \<Rightarrow> (case map_of f ''articles'' of Some (JList as) \<Rightarrow> True | _ \<Rightarrow> False) | _ \<Rightarrow> False) secs
   \<Longrightarrow> sum_articles (map snd secs) = Inr (sum_list (map (\<lambda>(name, sec). n_articles sec) secs))"
proof (induction secs)
  case Nil
  then show ?case by simp
next
  case (Cons x xs)
  obtain name sec where x: "x = (name, sec)"
    by (cases x)
  from Cons.prems x obtain f as where sec: "sec = JDict f" and as: "map_of f ''articles'' = Some (JList as)"
    by (auto split: json.splits option.splits)
  from Cons.prems have rest: "list_all (\<lambda>(name, sec). case sec of JDict f \<Rightarrow> (case map_of f ''articles'' of Some (JList as) \<Rightarrow> True | _ \<Rightarrow> False) | _ \<Rightarrow> False) xs"
    by simp
  have 1: "py_subscript sec ''articles'' = Inr (JList as)"
    by (simp add: sec py_subscript_def dict_getitem_def as)
  have 2: "py_len (JList as) = Inr (length as)"
    by (simp add: py_len_def)
  have 3: "n_articles sec = length as"
    by (simp add: n_articles_def sec as)
  have "sum_articles (map snd (x # xs)) = Inr (length as + sum_list (map (\<lambda>(name, sec). n_articles sec) xs))"
    by (simp add: x 1 2 Cons.IH [OF rest])
  then show ?case
    by (simp add: x 3)
qed

lemma kb_document_is_kb:
  assumes "is_kb (JDict secs)"
  shows "kb_document (JDict secs) = Inr (JDict [(''knowledge_base'', JDict secs),
                (''metadata'',
                 JDict [(''sections'', JInt (int (length secs))),
                        (''total_articles'',
                         JInt (int (sum_list (map (\<lambda>(name, sec). n_articles sec) secs))))])])"
proof -
  from assms have "list_all (\<lambda>(name, sec). case sec of JDict f \<Rightarrow> (case map_of f ''articles'' of Some (JList as) \<Rightarrow> True | _ \<Rightarrow> False) | _ \<Rightarrow> False) secs"
    by (simp add: is_kb_def)
  from sum_articles_sections [OF this] show ?thesis
    by (simp add: kb_document_def py_len_def py_values_def)
qed

lemma get_cached_kb_is_kb:
  assumes ok: "case cache_entry c of None \<Rightarrow> True | Some (v, expires) \<Rightarrow> is_kb v"
    and g: "get_cached_kb py r now c w = (res, c', w')"
  shows "(case cache_entry c' of None \<Rightarrow> True | Some (v, expires) \<Rightarrow> is_kb v)
         \<and> (\<forall>v. res = Inr v \<longrightarrow> is_kb v)"
proof (cases "case cache_entry c of None \<Rightarrow> None
              | Some (v, expires) \<Rightarrow> if now < expires then Some v else None")
  case (Some v)
  with g have r: "res = Inr v" "c' = c\<lparr>cache_hits := cache_hits c + 1\<rparr>"
    by (simp_all add: get_cached_kb_def)
  from Some ok have "is_kb v"
    by (auto split: option.splits if_splits)
  with r ok show ?thesis
    by simp
next
  case None
  obtain res1 w1 where a: "get_all_articles py r w = (res1, w1)"
    by (cases "get_all_articles py r w")
  show ?thesis
  proof (cases res1)
    case (Inl e)
    with a None g have "res = Inl e" "c' = c\<lparr>cache_misses := cache_misses c + 1\<rparr>"
      by (simp_all add: get_cached_kb_def)
    with ok show ?thesis
      by simp
  next
    case (Inr v)
    with a None g have r: "res = Inr v"
      "c' = c\<lparr>cache_misses := cache_misses c + 1, cache_entry := Some (v, now + 3600)\<rparr>"
      by (simp_all add: get_cached_kb_def)
    from get_all_articles_is_kb [OF a [unfolded Inr]] r show ?thesis
      by simp
  qed
qed

lemma cache_ok_initial_state: "cache_ok initial_state"
  by (simp add: cache_ok_def initial_state_def)

text \<open>
  Claim C7. The store of the cache holds nothing or a snapshot built by
  \<^verbatim>\<open>get_all_articles\<close> (\<open>cache_ok\<close>): this holds when the server starts and every read
  keeps it. Then for every read of \<^verbatim>\<open>zendesk://knowledge-base\<close> that returns, the text is
  \<^verbatim>\<open>json.dumps\<close> of a document whose \<^verbatim>\<open>knowledge_base\<close> is a dict \<open>secs\<close> of sections with
  distinct names, whose \<^verbatim>\<open>metadata.sections\<close> is the number of these sections, and whose
  \<^verbatim>\<open>metadata.total_articles\<close> is the sum over the sections of the length of the section's
  \<^verbatim>\<open>articles\<close> list; every section record is a dict with a list under \<^verbatim>\<open>articles\<close>.
  That \<^verbatim>\<open>get_all_articles\<close> produces only such records is lemma
  \<open>get_all_articles_is_kb\<close>.
\<close>

theorem kb_metadata_consistent:
  assumes ok: "cache_ok s"
    and rd: "handle_read_resource py r ''zendesk://knowledge-base'' now s w = (Inr text, s', w')"
  shows "\<exists>secs. text = py_dumps py (JDict [(''knowledge_base'', JDict secs),
                (''metadata'',
                 JDict [(''sections'', JInt (int (length secs))),
                        (''total_articles'',
                         JInt (int (sum_list (map (\<lambda>(name, sec). n_articles sec) secs))))])]) (Some 2)
           \<and> distinct (map fst secs)
           \<and> (\<forall>(name, sec) \<in> set secs.
                 \<exists>f as. sec = JDict f \<and> map_of f ''articles'' = Some (JList as)
                        \<and> n_articles sec = length as)
           \<and> cache_ok s'"
proof -
  obtain res c1 w1 where g: "get_cached_kb py r now (kb_cache s) w = (res, c1, w1)"
    by (cases "get_cached_kb py r now (kb_cache s) w")
  from ok have "case cache_entry (kb_cache s) of None \<Rightarrow> True | Some (v, expires) \<Rightarrow> is_kb v"
    by (simp add: cache_ok_def)
  from get_cached_kb_is_kb [OF this g]
  have c1: "case cache_entry c1 of None \<Rightarrow> True | Some (v, expires) \<Rightarrow> is_kb v"
    and v: "\<And>v. res = Inr v \<Longrightarrow> is_kb v"
    by simp_all
  show ?thesis
  proof (cases res)
    case (Inl e)
    with g rd show ?thesis
      by (simp add: read_kb)
  next
    case (Inr kb_data)
    from v [OF this] obtain secs where secs: "kb_data = JDict secs" and kb: "is_kb (JDict secs)"
      by (cases kb_data) (simp_all add: is_kb_def)
    note doc = kb_document_is_kb [OF kb]
    from g rd Inr secs doc have tx: "text = py_dumps py (JDict [(''knowledge_base'', JDict secs),
                (''metadata'',
                 JDict [(''sections'', JInt (int (length secs))),
                        (''total_articles'',
                         JInt (int (sum_list (map (\<lambda>(name, sec). n_articles sec) secs))))])]) (Some 2)"
      and s': "s' = (logger ''DEBUG'' (''Handling read_resource request for URI: '' @ ''zendesk://knowledge-base'') s)
                       \<lparr>kb_cache := c1\<rparr>"
      by (simp_all add: read_kb)
    from c1 s' have ok': "cache_ok s'"
      by (simp add: cache_ok_def)
    from kb have d: "distinct (map fst secs)" and a: "list_all (\<lambda>(name, sec). case sec of JDict f \<Rightarrow> (case map_of f ''articles'' of Some (JList as) \<Rightarrow> True | _ \<Rightarrow> False) | _ \<Rightarrow> False) secs"
      by (simp_all add: is_kb_def)
    have "\<forall>(name, sec) \<in> set secs.
            \<exists>f as. sec = JDict f \<and> map_of f ''articles'' = Some (JList as) \<and> n_articles sec = length as"
    proof (clarify)
      fix name sec
      assume "(name, sec) \<in> set secs"
      with a have "(\<lambda>(name, sec). case sec of JDict f \<Rightarrow> (case map_of f ''articles'' of Some (JList as) \<Rightarrow> True | _ \<Rightarrow> False) | _ \<Rightarrow> False) (name, sec)"
        by (auto simp: list_all_iff)
      then obtain f as where "sec = JDict f" "map_of f ''articles'' = Some (JList as)"
        by (auto split: json.splits option.splits)
      then show "\<exists>f as. sec = JDict f \<and> map_of f ''articles'' = Some (JList as) \<and> n_articles sec = length as"
        by (simp add: n_articles_def)
    qed
    with tx d ok' show ?thesis
      by blast
  qed
qed

lemma get_all_articles_help_center:
  "get_all_articles py help_center w = (Inr help_center_kb, Suc w)"
  by (simp add: get_all_articles_def help_center_def dict_set_def section_record_def
                article_record_def py_str_def help_center_kb_def)

lemma kb_document_help_center:
  "kb_document help_center_kb = Inr (JDict [(''knowledge_base'', help_center_kb),
                    (''metadata'', JDict [(''sections'', JInt 2), (''total_articles'', JInt 3)])])"
  by (simp add: kb_document_def help_center_kb_def py_len_def py_values_def py_subscript_def
                dict_getitem_def)

lemma first_read_help_center:
  "handle_read_resource py help_center ''zendesk://knowledge-base'' now initial_state w =
     (Inr (py_dumps py (JDict [(''knowledge_base'', help_center_kb),
                    (''metadata'', JDict [(''sections'', JInt 2), (''total_articles'', JInt 3)])]) (Some 2)),
      (logger ''DEBUG'' (''Handling read_resource request for URI: '' @ ''zendesk://knowledge-base'')
         initial_state)
        \<lparr>kb_cache := \<lparr>cache_entry = Some (help_center_kb, now + 3600), cache_hits = 0, cache_misses = 1\<rparr>\<rparr>,
      Suc w)"
proof -
  have "get_cached_kb py help_center now (kb_cache initial_state) w
          = (Inr help_center_kb,
             \<lparr>cache_entry = Some (help_center_kb, now + 3600), cache_hits = 0, cache_misses = 1\<rparr>, Suc w)"
    by (simp add: get_cached_kb_def initial_state_def get_all_articles_help_center)
  then show ?thesis
    by (simp add: read_kb kb_document_help_center)
qed

theorem kb_metadata_consistent_witness:
  "\<forall>py. fst (handle_read_resource py help_center ''zendesk://knowledge-base'' 0 initial_state 0)
           = Inr (py_dumps py (JDict [(''knowledge_base'', help_center_kb),
                    (''metadata'', JDict [(''sections'', JInt 2), (''total_articles'', JInt 3)])]) (Some 2))
         \<and> snd (snd (handle_read_resource py help_center ''zendesk://knowledge-base'' 0 initial_state 0)) = 1
         \<and> cache_ok (fst (snd (handle_read_resource py help_center ''zendesk://knowledge-base'' 0 initial_state 0)))"
proof
  fix py
  note rd = first_read_help_center [of py 0 0]
  from kb_metadata_consistent [OF cache_ok_initial_state rd]
  have "cache_ok ((logger ''DEBUG'' (''Handling read_resource request for URI: '' @ ''zendesk://knowledge-base'')
         initial_state)
        \<lparr>kb_cache := \<lparr>cache_entry = Some (help_center_kb, 0 + 3600), cache_hits = 0, cache_misses = 1\<rparr>\<rparr>)"
    by blast
  with rd show "fst (handle_read_resource py help_center ''zendesk://knowledge-base'' 0 initial_state 0)
           = Inr (py_dumps py (JDict [(''knowledge_base'', help_center_kb),
                    (''metadata'', JDict [(''sections'', JInt 2), (''total_articles'', JInt 3)])]) (Some 2))
         \<and> snd (snd (handle_read_resource py help_center ''zendesk://knowledge-base'' 0 initial_state 0)) = 1
         \<and> cache_ok (fst (snd (handle_read_resource py help_center ''zendesk://knowledge-base'' 0 initial_state 0)))"
    by simp
qed

section \<open>Properties of the knowledge-base cache\<close>

lemma read_kb_hit:
  assumes "cache_entry (kb_cache s) = Some (v, e)" and "now < e"
  shows "\<exists>s1. handle_read_resource py r ''zendesk://knowledge-base'' now s w = ((case kb_document v of Inl e \<Rightarrow> Inl e | Inr doc \<Rightarrow> Inr (py_dumps py doc (Some 2))), s1, w)
            \<and> cache_entry (kb_cache s1) = Some (v, e)
            \<and> cache_misses (kb_cache s1) = cache_misses (kb_cache s)"
proof -
  from assms have g: "get_cached_kb py r now (kb_cache s) w
                        = (Inr v, (kb_cache s)\<lparr>cache_hits := cache_hits (kb_cache s) + 1\<rparr>, w)"
    by (simp add: get_cached_kb_def)
  show ?thesis
    by (cases "kb_document v") (simp_all add: read_kb g logger_def assms)
qed




text \<open>
  On \<open>help_center\<close>, the read at 3599 after the read at 0 returns the same text, counts
  no miss and leaves the remote with the one call of the first read.
\<close>

lemma second_read_help_center:
  "fst (handle_read_resource py help_center ''zendesk://knowledge-base'' 3599
          (fst (snd (handle_read_resource py help_center ''zendesk://knowledge-base'' 0 initial_state 0))) 1)
     = Inr (py_dumps py (JDict [(''knowledge_base'', help_center_kb),
                    (''metadata'', JDict [(''sections'', JInt 2), (''total_articles'', JInt 3)])]) (Some 2))
   \<and> cache_misses (kb_cache (fst (snd (handle_read_resource py help_center ''zendesk://knowledge-base'' 3599
          (fst (snd (handle_read_resource py help_center ''zendesk://knowledge-base'' 0 initial_state 0))) 1)))) = 1
   \<and> snd (snd (handle_read_resource py help_center ''zendesk://knowledge-base'' 3599
          (fst (snd (handle_read_resource py help_center ''zendesk://knowledge-base'' 0 initial_state 0))) 1)) = 1"
proof -
  let ?s1 = "fst (snd (handle_read_resource py help_center ''zendesk://knowledge-base'' 0 initial_state 0))"
  have e: "cache_entry (kb_cache ?s1) = Some (help_center_kb, 3600)"
    and m: "cache_misses (kb_cache ?s1) = 1"
    by (simp_all add: first_read_help_center)
  have "(3599::real) < 3600"
    by simp
  from read_kb_hit [where py=py and r=help_center and w=1, OF e this] m show ?thesis
    by (auto simp: kb_document_help_center)
qed





section \<open>Properties of handle_read_resource\<close>

lemma read_rejected_scheme:
  "url_scheme uri \<noteq> ''zendesk''
   \<Longrightarrow> handle_read_resource py r uri now s w
         = (Inl (ValueError (''Unsupported URI scheme: '' @ url_scheme uri)),
            logger ''ERROR'' (''Unsupported URI scheme: '' @ url_scheme uri)
              (logger ''DEBUG'' (''Handling read_resource request for URI: '' @ uri) s), w)"
  by (simp add: handle_read_resource_def Let_def)

lemma read_rejected_path:
  "url_scheme uri = ''zendesk'' \<Longrightarrow> py_replace ''zendesk://'' [] uri \<noteq> ''knowledge-base''
   \<Longrightarrow> handle_read_resource py r uri now s w
         = (Inl (ValueError (''Unknown resource path: '' @ py_replace ''zendesk://'' [] uri)),
            logger ''ERROR'' (''Unknown resource path: '' @ py_replace ''zendesk://'' [] uri)
              (logger ''DEBUG'' (''Handling read_resource request for URI: '' @ uri) s), w)"
  by (simp add: handle_read_resource_def Let_def)






lemma handle_read_resource_logs:
  "length (logged s) < length (logged (fst (snd (handle_read_resource py r uri now s w))))"
proof (cases "url_scheme uri = ''zendesk''")
  case False
  then show ?thesis
    by (simp add: read_rejected_scheme logger_def)
next
  case sch: True
  show ?thesis
  proof (cases "py_replace ''zendesk://'' [] uri = ''knowledge-base''")
    case False
    with sch show ?thesis
      by (simp add: read_rejected_path logger_def)
  next
    case True
    obtain res c1 w1 where g: "get_cached_kb py r now (kb_cache s) w = (res, c1, w1)"
      by (cases "get_cached_kb py r now (kb_cache s) w")
    show ?thesis
    proof (cases res)
      case (Inl e)
      with sch True g show ?thesis
        by (simp add: handle_read_resource_def Let_def logger_def)
    next
      case (Inr v)
      with sch True g show ?thesis
        by (cases "kb_document v") (simp_all add: handle_read_resource_def Let_def logger_def)
    qed
  qed
qed

text \<open>
  Unlike a tool call, a read of a resource changes the state of the process: at least a
  record is given to \<^verbatim>\<open>logger\<close>.
\<close>

lemma handle_read_resource_changes_state:
  "fst (snd (handle_read_resource py r uri now s w)) \<noteq> s"
  using handle_read_resource_logs [of s py r uri now w] by auto



text \<open>
  The hypothesis on the authority is needed because \<^verbatim>\<open>replace\<close> removes every occurrence
  of \<^verbatim>\<open>zendesk://\<close> and not only the prefix: the text below passes both checks. It is not
  the text of an \<^verbatim>\<open>AnyUrl\<close>, which writes this URL as
  \<^verbatim>\<open>zendesk://zendesk//knowledge-base\<close>.
\<close>

lemma doubled_prefix_passes:
  "url_scheme ''zendesk://zendesk://knowledge-base'' = ''zendesk''
   \<and> py_replace ''zendesk://'' [] ''zendesk://zendesk://knowledge-base'' = ''knowledge-base''
   \<and> url_authority ''zendesk://zendesk://knowledge-base'' = ''zendesk:''"
  by (simp add: url_scheme_def url_authority_def)

text \<open>
  Every read, rejected or not, leaves in the store nothing or a snapshot built by
  \<^verbatim>\<open>get_all_articles\<close>.
\<close>

lemma handle_read_resource_keeps_cache_ok:
  assumes "cache_ok s"
  shows "cache_ok (fst (snd (handle_read_resource py r uri now s w)))"
proof (cases "url_scheme uri = ''zendesk''")
  case False
  with assms show ?thesis
    by (simp add: read_rejected_scheme cache_ok_def kb_cache_logger)
next
  case sch: True
  show ?thesis
  proof (cases "py_replace ''zendesk://'' [] uri = ''knowledge-base''")
    case False
    with sch assms show ?thesis
      by (simp add: read_rejected_path cache_ok_def kb_cache_logger)
  next
    case True
    obtain res c1 w1 where g: "get_cached_kb py r now (kb_cache s) w = (res, c1, w1)"
      by (cases "get_cached_kb py r now (kb_cache s) w")
    from assms have "case cache_entry (kb_cache s) of None \<Rightarrow> True | Some (v, expires) \<Rightarrow> is_kb v"
      by (simp add: cache_ok_def)
    from get_cached_kb_is_kb [OF this g]
    have c1: "case cache_entry c1 of None \<Rightarrow> True | Some (v, expires) \<Rightarrow> is_kb v"
      by simp
    show ?thesis
    proof (cases res)
      case (Inl e)
      with sch True g c1 show ?thesis
        by (simp add: handle_read_resource_def Let_def logger_def cache_ok_def)
    next
      case (Inr v)
      with sch True g c1 show ?thesis
        by (cases "kb_document v") (simp_all add: handle_read_resource_def Let_def logger_def cache_ok_def)
    qed
  qed
qed

end
